theory Spec2Isabelle
  imports Complex_Main
begin

section \<open>JavaScript numbers in exact arithmetic\<close>

text \<open>
  The geodesy library \<^verbatim>\<open>www/js/latlong.js\<close> computes on JavaScript numbers. A
  number is modelled by its mathematical value: a finite number is a real, and the
  three special values \<^verbatim>\<open>NaN\<close>, \<^verbatim>\<open>Infinity\<close> and \<^verbatim>\<open>-Infinity\<close> are kept, since the
  source tests for them (\<^verbatim>\<open>isNaN\<close>, \<^verbatim>\<open>isFinite\<close>) and since they are what a
  division by zero, a square root or logarithm of a negative number and an inverse
  sine or cosine outside \<open>[-1, 1]\<close> return. The operations follow the rules of
  ECMAScript for these values; the rounding of binary64 and the sign of zero are not
  modelled (every zero is \<open>+0\<close>).
\<close>

datatype jsnum = Num real | NaN | PInf | NInf

fun flip :: "jsnum \<Rightarrow> jsnum" where
  "flip (Num a) = Num (- a)"
| "flip NaN = NaN"
| "flip PInf = NInf"
| "flip NInf = PInf"

fun js_add :: "jsnum \<Rightarrow> jsnum \<Rightarrow> jsnum" where
  "js_add (Num a) (Num b) = Num (a + b)"
| "js_add NaN _ = NaN"
| "js_add _ NaN = NaN"
| "js_add PInf NInf = NaN"
| "js_add NInf PInf = NaN"
| "js_add PInf _ = PInf"
| "js_add NInf _ = NInf"
| "js_add (Num a) PInf = PInf"
| "js_add (Num a) NInf = NInf"

fun js_mul :: "jsnum \<Rightarrow> jsnum \<Rightarrow> jsnum" where
  "js_mul (Num a) (Num b) = Num (a * b)"
| "js_mul NaN _ = NaN"
| "js_mul _ NaN = NaN"
| "js_mul (Num a) i = (if a = 0 then NaN else if 0 < a then i else flip i)"
| "js_mul i (Num b) = (if b = 0 then NaN else if 0 < b then i else flip i)"
| "js_mul PInf i = i"
| "js_mul NInf i = flip i"

fun js_div :: "jsnum \<Rightarrow> jsnum \<Rightarrow> jsnum" where
  "js_div (Num a) (Num b) =
     (if b \<noteq> 0 then Num (a / b)
      else if a = 0 then NaN else if 0 < a then PInf else NInf)"
| "js_div NaN _ = NaN"
| "js_div _ NaN = NaN"
| "js_div (Num a) _ = Num 0"
| "js_div i (Num b) = (if 0 \<le> b then i else flip i)"
| "js_div _ _ = NaN"

text \<open>
  The remainder operator \<^verbatim>\<open>%\<close> truncates the quotient towards zero, so that the
  result has the sign of the dividend.
\<close>

definition trunc :: "real \<Rightarrow> int" where
  "trunc x = (if 0 \<le> x then \<lfloor>x\<rfloor> else \<lceil>x\<rceil>)"

fun js_rem :: "jsnum \<Rightarrow> jsnum \<Rightarrow> jsnum" where
  "js_rem (Num a) (Num b) = (if b = 0 then NaN else Num (a - b * of_int (trunc (a / b))))"
| "js_rem NaN _ = NaN"
| "js_rem _ NaN = NaN"
| "js_rem (Num a) _ = Num a"
| "js_rem _ _ = NaN"

fun js_lt :: "jsnum \<Rightarrow> jsnum \<Rightarrow> bool" where
  "js_lt (Num a) (Num b) = (a < b)"
| "js_lt NaN _ = False"
| "js_lt _ NaN = False"
| "js_lt NInf NInf = False"
| "js_lt NInf _ = True"
| "js_lt PInf _ = False"
| "js_lt (Num a) PInf = True"
| "js_lt (Num a) NInf = False"

instantiation jsnum :: "{plus, minus, uminus, times, inverse, ord}"
begin

definition plus_jsnum :: "jsnum \<Rightarrow> jsnum \<Rightarrow> jsnum" where
  "plus_jsnum x y = js_add x y"

definition uminus_jsnum :: "jsnum \<Rightarrow> jsnum" where
  "uminus_jsnum x = flip x"

definition minus_jsnum :: "jsnum \<Rightarrow> jsnum \<Rightarrow> jsnum" where
  "minus_jsnum x y = js_add x (flip y)"

definition times_jsnum :: "jsnum \<Rightarrow> jsnum \<Rightarrow> jsnum" where
  "times_jsnum x y = js_mul x y"

definition divide_jsnum :: "jsnum \<Rightarrow> jsnum \<Rightarrow> jsnum" where
  "divide_jsnum x y = js_div x y"

definition inverse_jsnum :: "jsnum \<Rightarrow> jsnum" where
  "inverse_jsnum x = js_div (Num 1) x"

definition less_jsnum :: "jsnum \<Rightarrow> jsnum \<Rightarrow> bool" where
  "less_jsnum x y = js_lt x y"

definition less_eq_jsnum :: "jsnum \<Rightarrow> jsnum \<Rightarrow> bool" where
  "less_eq_jsnum x y = (js_lt x y \<or> (x = y \<and> x \<noteq> NaN))"

instance ..

end

text \<open>The JavaScript comparison \<^verbatim>\<open>x == y\<close> of two numbers: \<^verbatim>\<open>NaN\<close> equals nothing.\<close>

definition js_eq :: "jsnum \<Rightarrow> jsnum \<Rightarrow> bool" where
  "js_eq x y = (x = y \<and> x \<noteq> NaN)"

definition isNaN :: "jsnum \<Rightarrow> bool" where
  "isNaN x = (x = NaN)"

fun isFinite :: "jsnum \<Rightarrow> bool" where
  "isFinite (Num a) = True"
| "isFinite _ = False"

subsection \<open>The functions of \<^verbatim>\<open>Math\<close>\<close>

definition Math_PI :: jsnum where
  "Math_PI = Num pi"

fun Math_abs :: "jsnum \<Rightarrow> jsnum" where
  "Math_abs (Num a) = Num \<bar>a\<bar>"
| "Math_abs NaN = NaN"
| "Math_abs _ = PInf"

fun Math_floor :: "jsnum \<Rightarrow> jsnum" where
  "Math_floor (Num a) = Num (of_int \<lfloor>a\<rfloor>)"
| "Math_floor x = x"

fun Math_sqrt :: "jsnum \<Rightarrow> jsnum" where
  "Math_sqrt (Num a) = (if a < 0 then NaN else Num (sqrt a))"
| "Math_sqrt PInf = PInf"
| "Math_sqrt _ = NaN"

fun Math_sin :: "jsnum \<Rightarrow> jsnum" where
  "Math_sin (Num a) = Num (sin a)"
| "Math_sin _ = NaN"

fun Math_cos :: "jsnum \<Rightarrow> jsnum" where
  "Math_cos (Num a) = Num (cos a)"
| "Math_cos _ = NaN"

text \<open>
  \<^verbatim>\<open>Math.tan\<close>. At latitude 90 the rhumb-line formulae take the tangent of
  \<^verbatim>\<open>Math.PI/2\<close>, a binary64 number just below \<open>\<pi>/2\<close>, and \<^verbatim>\<open>Math.tan\<close> returns
  16331239353195370 there (and its negative at \<^verbatim>\<open>-Math.PI/2\<close>); the model returns these
  two numbers at \<open>\<pi>/2\<close> and \<open>-\<pi>/2\<close>. At the other odd multiples of \<open>\<pi>/2\<close>, which no
  latitude between -90 and 90 reaches, the tangent has no value and the model returns
  \<^verbatim>\<open>NaN\<close>.
\<close>

fun Math_tan :: "jsnum \<Rightarrow> jsnum" where
  "Math_tan (Num a) =
     (if a = pi / 2 then Num 16331239353195370
      else if a = - (pi / 2) then Num (- 16331239353195370)
      else if cos a = 0 then NaN
      else Num (tan a))"
| "Math_tan _ = NaN"

fun Math_asin :: "jsnum \<Rightarrow> jsnum" where
  "Math_asin (Num a) = (if - 1 \<le> a \<and> a \<le> 1 then Num (arcsin a) else NaN)"
| "Math_asin _ = NaN"

fun Math_acos :: "jsnum \<Rightarrow> jsnum" where
  "Math_acos (Num a) = (if - 1 \<le> a \<and> a \<le> 1 then Num (arccos a) else NaN)"
| "Math_acos _ = NaN"

fun Math_log :: "jsnum \<Rightarrow> jsnum" where
  "Math_log (Num a) = (if a < 0 then NaN else if a = 0 then NInf else Num (ln a))"
| "Math_log PInf = PInf"
| "Math_log _ = NaN"

definition atan2 :: "real \<Rightarrow> real \<Rightarrow> real" where
  "atan2 y x =
     (if 0 < x then arctan (y / x)
      else if x < 0 then (if 0 \<le> y then arctan (y / x) + pi else arctan (y / x) - pi)
      else if 0 < y then pi / 2
      else if y < 0 then - (pi / 2)
      else 0)"

fun Math_atan2 :: "jsnum \<Rightarrow> jsnum \<Rightarrow> jsnum" where
  "Math_atan2 (Num y) (Num x) = Num (atan2 y x)"
| "Math_atan2 NaN _ = NaN"
| "Math_atan2 _ NaN = NaN"
| "Math_atan2 (Num y) PInf = Num 0"
| "Math_atan2 (Num y) NInf = (if 0 \<le> y then Num pi else Num (- pi))"
| "Math_atan2 PInf (Num x) = Num (pi / 2)"
| "Math_atan2 NInf (Num x) = Num (- (pi / 2))"
| "Math_atan2 PInf PInf = Num (pi / 4)"
| "Math_atan2 PInf NInf = Num (3 * pi / 4)"
| "Math_atan2 NInf PInf = Num (- (pi / 4))"
| "Math_atan2 NInf NInf = Num (- (3 * pi / 4))"

text \<open>\<^verbatim>\<open>Number.prototype.toRadians\<close> and \<^verbatim>\<open>Number.prototype.toDegrees\<close>.\<close>

definition toRadians :: "jsnum \<Rightarrow> jsnum" where
  "toRadians this = this * Math_PI / Num 180"

definition toDegrees :: "jsnum \<Rightarrow> jsnum" where
  "toDegrees this = this * Num 180 / Math_PI"

section \<open>Strings and values\<close>

text \<open>
  A JavaScript string is a sequence of UTF-16 code units. The glyphs the library
  writes outside ASCII are the degree sign, the prime, the double prime and the en
  dash.
\<close>

type_synonym jsstring = "nat list"

definition ascii :: "string \<Rightarrow> jsstring" where
  "ascii = map of_char"

definition degree_sign :: jsstring where
  "degree_sign = [176]"

definition prime_sign :: jsstring where
  "prime_sign = [8242]"

definition double_prime_sign :: jsstring where
  "double_prime_sign = [8243]"

definition en_dash :: jsstring where
  "en_dash = [8211]"

definition is_digit :: "nat \<Rightarrow> bool" where
  "is_digit c = (48 \<le> c \<and> c \<le> 57)"

text \<open>White space and line terminators, as \<^verbatim>\<open>\s\<close> and \<^verbatim>\<open>trim\<close> read them.\<close>

definition is_space :: "nat \<Rightarrow> bool" where
  "is_space c =
     (c \<in> {9, 10, 11, 12, 13, 32, 160, 5760, 8232, 8233, 8239, 8287, 12288, 65279}
      \<or> (8192 \<le> c \<and> c \<le> 8202))"

definition trim :: "jsstring \<Rightarrow> jsstring" where
  "trim s = rev (dropWhile is_space (rev (dropWhile is_space s)))"

text \<open>Decimal digits of a natural number, and the number a digit string denotes.\<close>

fun digits :: "nat \<Rightarrow> jsstring" where
  "digits n = (if n < 10 then [48 + n] else digits (n div 10) @ [48 + n mod 10])"

declare digits.simps [simp del]

definition digits_val :: "jsstring \<Rightarrow> nat" where
  "digits_val s = foldl (\<lambda>a c. 10 * a + (c - 48)) 0 s"

subsection \<open>Strings to numbers\<close>

text \<open>
  \<^verbatim>\<open>ToNumber\<close> on a string: white space is trimmed, the empty string is \<open>0\<close>, and
  the rest is a radix-prefixed integer, a signed \<^verbatim>\<open>Infinity\<close> or a signed decimal
  literal with an optional fraction and exponent; anything else is \<^verbatim>\<open>NaN\<close>.
\<close>

definition pow10 :: "int \<Rightarrow> real" where
  "pow10 e = (if 0 \<le> e then 10 ^ nat e else 1 / 10 ^ nat (- e))"

definition radix_digit :: "nat \<Rightarrow> nat option" where
  "radix_digit c =
     (if is_digit c then Some (c - 48)
      else if 97 \<le> c \<and> c \<le> 102 then Some (c - 87)
      else if 65 \<le> c \<and> c \<le> 70 then Some (c - 55)
      else None)"

fun radix_val :: "nat \<Rightarrow> jsstring \<Rightarrow> nat \<Rightarrow> nat option" where
  "radix_val b [] acc = Some acc"
| "radix_val b (c # cs) acc =
     (case radix_digit c of
        None \<Rightarrow> None
      | Some d \<Rightarrow> if d < b then radix_val b cs (b * acc + d) else None)"

definition exponent_part :: "jsstring \<Rightarrow> int option" where
  "exponent_part r =
     (case r of
        [] \<Rightarrow> Some 0
      | c # t \<Rightarrow>
          if c = 101 \<or> c = 69 then
            (let sg = (case t of x # _ \<Rightarrow> if x = 45 then - 1 else 1 | [] \<Rightarrow> 1);
                 ds = (case t of x # d \<Rightarrow> if x = 43 \<or> x = 45 then d else t | [] \<Rightarrow> [])
             in if ds \<noteq> [] \<and> list_all is_digit ds then Some (sg * int (digits_val ds))
                else None)
          else None)"

definition decimal_literal :: "jsstring \<Rightarrow> real option" where
  "decimal_literal u =
     (let ip = takeWhile is_digit u;
          r1 = dropWhile is_digit u;
          has_dot = (case r1 of c # _ \<Rightarrow> c = 46 | [] \<Rightarrow> False);
          fp = (if has_dot then takeWhile is_digit (tl r1) else []);
          r2 = (if has_dot then dropWhile is_digit (tl r1) else r1)
      in if ip = [] \<and> fp = [] then None
         else (case exponent_part r2 of
                 None \<Rightarrow> None
               | Some e \<Rightarrow>
                   Some ((real (digits_val ip) + real (digits_val fp) / 10 ^ length fp)
                         * pow10 e)))"

definition radix_literal :: "jsstring \<Rightarrow> jsnum option" where
  "radix_literal t =
     (case t of
        z # x # r \<Rightarrow>
          if z = 48 \<and> r \<noteq> [] \<and> x \<in> {120, 88, 111, 79, 98, 66} then
            Some (case radix_val (if x \<in> {120, 88} then 16 else if x \<in> {111, 79} then 8 else 2) r 0 of
                    None \<Rightarrow> NaN
                  | Some v \<Rightarrow> Num (real v))
          else None
      | _ \<Rightarrow> None)"

definition StringToNumber :: "jsstring \<Rightarrow> jsnum" where
  "StringToNumber s =
     (let t = trim s in
      if t = [] then Num 0
      else case radix_literal t of
        Some v \<Rightarrow> v
      | None \<Rightarrow>
         (let neg = (case t of c # _ \<Rightarrow> c = 45 | [] \<Rightarrow> False);
              u = (case t of c # r \<Rightarrow> if c = 43 \<or> c = 45 then r else t | [] \<Rightarrow> [])
          in if u = ascii ''Infinity'' then (if neg then NInf else PInf)
             else case decimal_literal u of
                    None \<Rightarrow> NaN
                  | Some v \<Rightarrow> Num (if neg then - v else v)))"

subsection \<open>Numbers to strings\<close>

text \<open>
  \<^verbatim>\<open>Number.prototype.toString\<close>. The library converts only integers (results of
  \<^verbatim>\<open>Math.floor\<close>) and non-finite numbers in this way, and the definition renders the
  integer part: plain digits below \<open>10\<^sup>2\<^sup>1\<close>, exponential notation from there on.
  (The digits of a fraction depend on its binary64 representation.)
\<close>

definition strip_trailing_zeros :: "jsstring \<Rightarrow> jsstring" where
  "strip_trailing_zeros s = rev (dropWhile (\<lambda>c. c = 48) (rev s))"

definition nat_toString :: "nat \<Rightarrow> jsstring" where
  "nat_toString n =
     (if n < 10 ^ 21 then digits n
      else (let ds = digits n; sg = strip_trailing_zeros ds
            in (if length sg = 1 then sg else hd sg # 46 # tl sg)
               @ ascii ''e+'' @ digits (length ds - 1)))"

fun Number_toString :: "jsnum \<Rightarrow> jsstring" where
  "Number_toString (Num r) = (if r < 0 then ascii ''-'' else []) @ nat_toString (nat \<lfloor>\<bar>r\<bar>\<rfloor>)"
| "Number_toString NaN = ascii ''NaN''"
| "Number_toString PInf = ascii ''Infinity''"
| "Number_toString NInf = ascii ''-Infinity''"

subsection \<open>Values\<close>

text \<open>
  The values of the model: \<^verbatim>\<open>undefined\<close>, \<^verbatim>\<open>null\<close>, booleans, numbers, strings and
  ordinary objects. \<open>VObj s\<close> is an ordinary object (a DOM element, say) whose
  conversion to a string is \<open>s\<close> and which has no method \<^verbatim>\<open>trim\<close>. Values of the
  types \<^verbatim>\<open>bigint\<close>, \<^verbatim>\<open>symbol\<close> and \<^verbatim>\<open>function\<close> are not modelled, and the statements
  below name the types they cover.
\<close>

datatype jsval = VUndefined | VNull | VBool bool | VNum jsnum | VStr jsstring | VObj jsstring

datatype js_error = TypeError | RangeError | ReferenceError

fun typeof :: "jsval \<Rightarrow> jsstring" where
  "typeof VUndefined = ascii ''undefined''"
| "typeof VNull = ascii ''object''"
| "typeof (VBool b) = ascii ''boolean''"
| "typeof (VNum n) = ascii ''number''"
| "typeof (VStr s) = ascii ''string''"
| "typeof (VObj s) = ascii ''object''"

fun ToString :: "jsval \<Rightarrow> jsstring" where
  "ToString VUndefined = ascii ''undefined''"
| "ToString VNull = ascii ''null''"
| "ToString (VBool b) = (if b then ascii ''true'' else ascii ''false'')"
| "ToString (VNum n) = Number_toString n"
| "ToString (VStr s) = s"
| "ToString (VObj s) = s"

fun ToNumber :: "jsval \<Rightarrow> jsnum" where
  "ToNumber VUndefined = NaN"
| "ToNumber VNull = Num 0"
| "ToNumber (VBool b) = (if b then Num 1 else Num 0)"
| "ToNumber (VNum n) = n"
| "ToNumber (VStr s) = StringToNumber s"
| "ToNumber (VObj s) = StringToNumber s"

fun ToIntegerOrInfinity :: "jsnum \<Rightarrow> jsnum" where
  "ToIntegerOrInfinity (Num r) = Num (of_int (trunc r))"
| "ToIntegerOrInfinity NaN = Num 0"
| "ToIntegerOrInfinity x = x"

subsection \<open>\<^verbatim>\<open>toFixed\<close> and \<^verbatim>\<open>toPrecision\<close>\<close>

text \<open>
  \<^verbatim>\<open>Number.prototype.toFixed\<close>: the digits of the integer \<open>n\<close> for which
  \<open>n / 10\<^sup>f\<close> is nearest to the number (the larger \<open>n\<close> on a tie), with the point
  before the last \<open>f\<close> digits. A number of digits outside \<open>0..100\<close> raises a
  \<^verbatim>\<open>RangeError\<close>.
\<close>

definition fixed_digits :: "real \<Rightarrow> nat \<Rightarrow> jsstring" where
  "fixed_digits r f =
     (let m = digits (nat \<lfloor>\<bar>r\<bar> * 10 ^ f + 1 / 2\<rfloor>);
          m = (if length m \<le> f then replicate (f + 1 - length m) 48 @ m else m);
          k = length m
      in (if r < 0 then ascii ''-'' else [])
         @ (if f \<noteq> 0 then take (k - f) m @ ascii ''.'' @ drop (k - f) m else m))"

definition toFixed :: "jsnum \<Rightarrow> jsval \<Rightarrow> js_error + jsstring" where
  "toFixed this fractionDigits =
     (case ToIntegerOrInfinity (ToNumber fractionDigits) of
        Num f \<Rightarrow>
          if f < 0 \<or> 100 < f then Inl RangeError
          else (case this of
                  Num r \<Rightarrow>
                    if 10 ^ 21 \<le> \<bar>r\<bar> then Inr (Number_toString this)
                    else Inr (fixed_digits r (nat \<lfloor>f\<rfloor>))
                | _ \<Rightarrow> Inr (Number_toString this))
      | _ \<Rightarrow> Inl RangeError)"

text \<open>The decimal exponent of a positive number: \<open>10\<^sup>e \<le> x < 10\<^sup>e\<^sup>+\<^sup>1\<close>.\<close>

function exp10 :: "real \<Rightarrow> int" where
  "exp10 x =
     (if x \<le> 0 then 0
      else if 10 \<le> x then exp10 (x / 10) + 1
      else if x < 1 then exp10 (x * 10) - 1
      else 0)"
  by pat_completeness auto
termination
proof (relation "measure (\<lambda>x. if 10 \<le> x \<or> (0 < x \<and> x < 1) then 1 + nat \<lceil>\<bar>log 10 x\<bar>\<rceil> else 0)")
  show "wf (measure (\<lambda>x. if 10 \<le> x \<or> (0 < x \<and> x < 1) then 1 + nat \<lceil>\<bar>log 10 x\<bar>\<rceil> else 0))"
    by simp
next
  fix x :: real
  assume a: "\<not> x \<le> 0" "10 \<le> x"
  have l: "log 10 (x / 10) = log 10 x - 1"
    using a by (simp add: log_divide)
  have "1 \<le> log 10 x"
    using a by (simp add: le_log_iff)
  then show "(x / 10, x) \<in> measure (\<lambda>x. if 10 \<le> x \<or> (0 < x \<and> x < 1) then 1 + nat \<lceil>\<bar>log 10 x\<bar>\<rceil> else 0)"
    using a l by auto
next
  fix x :: real
  assume a: "\<not> x \<le> 0" "\<not> 10 \<le> x" "x < 1"
  have l: "log 10 (x * 10) = log 10 x + 1"
    using a by (simp add: log_mult)
  have n: "log 10 x < 0"
    using a by simp
  have c: "\<lceil>y - 1\<rceil> < \<lceil>y\<rceil>" for y :: real
    by simp
  show "(x * 10, x) \<in> measure (\<lambda>x. if 10 \<le> x \<or> (0 < x \<and> x < 1) then 1 + nat \<lceil>\<bar>log 10 x\<bar>\<rceil> else 0)"
  proof (cases "x * 10 < 1")
    case True
    then have "log 10 (x * 10) < 0"
      using a by simp
    then have "\<bar>log 10 x + 1\<bar> = - log 10 x - 1"
      using l by simp
    then show ?thesis
      using a l n True c [of "- log 10 x"] by auto
  next
    case False
    then show ?thesis
      using a n by auto
  qed
qed

declare exp10.simps [simp del]

text \<open>
  \<^verbatim>\<open>Number.prototype.toPrecision\<close> for a finite number and \<open>p\<close> significant digits:
  \<open>n\<close> has \<open>p\<close> digits and \<open>n \<times> 10\<^sup>e\<^sup>-\<^sup>p\<^sup>+\<^sup>1\<close> is nearest to the number. Exponential
  notation is used when \<open>e < -6\<close> or \<open>e \<ge> p\<close>; \<open>render_digits\<close> writes the sign \<open>s\<close>, the
  digits \<open>m\<close> and the exponent \<open>e\<close>.
\<close>

definition render_digits :: "jsstring \<Rightarrow> jsstring \<Rightarrow> int \<Rightarrow> nat \<Rightarrow> jsstring" where
  "render_digits s m e p =
     (if e < - 6 \<or> int p \<le> e then
        s @ (if p \<noteq> 1 then take 1 m @ ascii ''.'' @ drop 1 m else m)
          @ ascii ''e'' @ (if e < 0 then ascii ''-'' else ascii ''+'') @ digits (nat \<bar>e\<bar>)
      else if e = int p - 1 then s @ m
      else if 0 \<le> e then s @ take (nat (e + 1)) m @ ascii ''.'' @ drop (nat (e + 1)) m
      else s @ ascii ''0.'' @ replicate (nat (- (e + 1))) 48 @ m)"

definition precision_digits :: "real \<Rightarrow> nat \<Rightarrow> jsstring" where
  "precision_digits r p =
     (let s = (if r < 0 then ascii ''-'' else []);
          x = \<bar>r\<bar>;
          e0 = exp10 x;
          n0 = nat \<lfloor>x * pow10 (int p - 1 - e0) + 1 / 2\<rfloor>;
          e = (if x = 0 then 0 else if n0 = 10 ^ p then e0 + 1 else e0);
          m = (if x = 0 then replicate p 48
               else if n0 = 10 ^ p then digits (10 ^ (p - 1)) else digits n0)
      in render_digits s m e p)"

definition toPrecision :: "jsnum \<Rightarrow> jsval \<Rightarrow> js_error + jsstring" where
  "toPrecision this precision =
     (if precision = VUndefined then Inr (Number_toString this)
      else (case this of
              Num r \<Rightarrow>
                (case ToIntegerOrInfinity (ToNumber precision) of
                   Num p \<Rightarrow>
                     if p < 1 \<or> 100 < p then Inl RangeError
                     else Inr (precision_digits r (nat \<lfloor>p\<rfloor>))
                 | _ \<Rightarrow> Inl RangeError)
            | _ \<Rightarrow> Inr (Number_toString this)))"

subsection \<open>\<^verbatim>\<open>Number.prototype.toPrecisionFixed\<close>\<close>

text \<open>
  The regular expressions \<^verbatim>\<open>/(.+)e\+(.+)/\<close> and \<^verbatim>\<open>/(.+)e-(.+)/\<close>: both groups are
  greedy, so the match splits the string at the last \<^verbatim>\<open>e\<close> that is followed by the
  sign and at least one more character and preceded by at least one character, and
  it covers the whole string. \<open>match_exp c pre s\<close> scans \<open>s\<close> with \<open>pre\<close> already
  read. (The strings matched are results of \<^verbatim>\<open>toPrecision\<close>, which hold no line
  terminator.)
\<close>

fun match_exp :: "nat \<Rightarrow> jsstring \<Rightarrow> jsstring \<Rightarrow> (jsstring \<times> jsstring) option" where
  "match_exp c pre [] = None"
| "match_exp c pre (x # xs) =
     (case match_exp c (pre @ [x]) xs of
        Some r \<Rightarrow> Some r
      | None \<Rightarrow>
          if x = 101 \<and> pre \<noteq> [] \<and> (case xs of y # z # _ \<Rightarrow> y = c | _ \<Rightarrow> False)
          then Some (pre, tl xs) else None)"

text \<open>
  The two loops \<^verbatim>\<open>while (exp-- > l) sig = sig + '0'\<close> and
  \<^verbatim>\<open>while (exp-- > 1) sig = '0' + sig\<close>, on the number that \<^verbatim>\<open>exp\<close> converts to.
\<close>

function append_zeros :: "real \<Rightarrow> real \<Rightarrow> jsstring \<Rightarrow> jsstring" where
  "append_zeros ex l sig = (if l < ex then append_zeros (ex - 1) l (sig @ ascii ''0'') else sig)"
  by pat_completeness auto
termination
  by (relation "measure (\<lambda>(e, l, s). nat \<lceil>e - l\<rceil>)") (auto, linarith)

declare append_zeros.simps [simp del]

function prepend_zeros :: "real \<Rightarrow> jsstring \<Rightarrow> jsstring" where
  "prepend_zeros ex sig = (if 1 < ex then prepend_zeros (ex - 1) (ascii ''0'' @ sig) else sig)"
  by pat_completeness auto
termination
  by (relation "measure (\<lambda>(e, s). nat \<lceil>e - 1\<rceil>)") auto

declare prepend_zeros.simps [simp del]

text \<open>
  A loop whose counter is \<^verbatim>\<open>Infinity\<close> never ends: the result is \<open>None\<close>. On
  \<^verbatim>\<open>NaN\<close> and \<^verbatim>\<open>-Infinity\<close> the condition fails at once.
\<close>

definition replace_positive :: "jsstring \<Rightarrow> jsstring option" where
  "replace_positive n =
     (case match_exp 43 [] n of
        None \<Rightarrow> Some n
      | Some (sig, ex) \<Rightarrow>
          (let sig = remove1 46 sig;
               l = int (length sig) - 1
           in case StringToNumber ex of
                Num e \<Rightarrow> Some (append_zeros e (real_of_int l) sig)
              | PInf \<Rightarrow> None
              | _ \<Rightarrow> Some sig))"

definition replace_negative :: "jsstring \<Rightarrow> jsstring option" where
  "replace_negative n =
     (case match_exp 45 [] n of
        None \<Rightarrow> Some n
      | Some (sig, ex) \<Rightarrow>
          (let sig = remove1 46 sig
           in case StringToNumber ex of
                Num e \<Rightarrow> Some (ascii ''0.'' @ prepend_zeros e sig)
              | PInf \<Rightarrow> None
              | _ \<Rightarrow> Some (ascii ''0.'' @ sig)))"

definition toPrecisionFixed :: "jsnum \<Rightarrow> jsval \<Rightarrow> (js_error + jsstring) option" where
  "toPrecisionFixed this precision =
     (case toPrecision this precision of
        Inl err \<Rightarrow> Some (Inl err)
      | Inr n \<Rightarrow>
          (case replace_positive n of
             None \<Rightarrow> None
           | Some n \<Rightarrow>
               (case replace_negative n of
                  None \<Rightarrow> None
                | Some n \<Rightarrow> Some (Inr n))))"

section \<open>Points and the great-circle and rhumb-line formulae\<close>

record LatLon =
  lat :: jsnum
  lon :: jsnum
  radius :: jsnum

text \<open>The constructor \<^verbatim>\<open>LatLon(lat, lon, radius)\<close>; a radius left out is 6371 km.\<close>

definition new_LatLon :: "jsval \<Rightarrow> jsval \<Rightarrow> jsval \<Rightarrow> LatLon" where
  "new_LatLon lat_arg lon_arg radius_arg =
     (let radius_arg =
            (if typeof radius_arg = ascii ''undefined'' then VNum (Num 6371) else radius_arg)
      in \<lparr>lat = ToNumber lat_arg, lon = ToNumber lon_arg, radius = ToNumber radius_arg\<rparr>)"

definition distanceTo :: "LatLon \<Rightarrow> LatLon \<Rightarrow> jsval \<Rightarrow> (js_error + jsstring) option" where
  "distanceTo this point precision =
     (let precision =
            (if typeof precision = ascii ''undefined'' then VNum (Num 4) else precision);
          R = radius this;
          phi1 = toRadians (lat this); lam1 = toRadians (lon this);
          phi2 = toRadians (lat point); lam2 = toRadians (lon point);
          dphi = phi2 - phi1;
          dlam = lam2 - lam1;
          a = Math_sin (dphi / Num 2) * Math_sin (dphi / Num 2) +
              Math_cos phi1 * Math_cos phi2 *
              Math_sin (dlam / Num 2) * Math_sin (dlam / Num 2);
          c = Num 2 * Math_atan2 (Math_sqrt a) (Math_sqrt (Num 1 - a));
          d = R * c
      in toPrecisionFixed d (VNum (ToNumber precision)))"

definition bearingTo :: "LatLon \<Rightarrow> LatLon \<Rightarrow> jsnum" where
  "bearingTo this point =
     (let phi1 = toRadians (lat this); phi2 = toRadians (lat point);
          dlam = toRadians (lon point - lon this);
          y = Math_sin dlam * Math_cos phi2;
          x = Math_cos phi1 * Math_sin phi2 -
              Math_sin phi1 * Math_cos phi2 * Math_cos dlam;
          theta = Math_atan2 y x
      in js_rem (toDegrees theta + Num 360) (Num 360))"

definition finalBearingTo :: "LatLon \<Rightarrow> LatLon \<Rightarrow> jsnum" where
  "finalBearingTo this point =
     (let phi1 = toRadians (lat point); phi2 = toRadians (lat this);
          dlam = toRadians (lon this - lon point);
          y = Math_sin dlam * Math_cos phi2;
          x = Math_cos phi1 * Math_sin phi2 -
              Math_sin phi1 * Math_cos phi2 * Math_cos dlam;
          theta = Math_atan2 y x
      in js_rem (toDegrees theta + Num 180) (Num 360))"

definition midpointTo :: "LatLon \<Rightarrow> LatLon \<Rightarrow> LatLon" where
  "midpointTo this point =
     (let phi1 = toRadians (lat this); lam1 = toRadians (lon this);
          phi2 = toRadians (lat point);
          dlam = toRadians (lon point - lon this);
          Bx = Math_cos phi2 * Math_cos dlam;
          By = Math_cos phi2 * Math_sin dlam;
          phi3 = Math_atan2 (Math_sin phi1 + Math_sin phi2)
                   (Math_sqrt ((Math_cos phi1 + Bx) * (Math_cos phi1 + Bx) + By * By));
          lam3 = lam1 + Math_atan2 By (Math_cos phi1 + Bx);
          lam3 = js_rem (lam3 + Num 3 * Math_PI) (Num 2 * Math_PI) - Math_PI
      in new_LatLon (VNum (toDegrees phi3)) (VNum (toDegrees lam3)) VUndefined)"

definition destinationPoint :: "LatLon \<Rightarrow> jsval \<Rightarrow> jsval \<Rightarrow> LatLon" where
  "destinationPoint this brng distance =
     (let theta = toRadians (ToNumber brng);
          delta = ToNumber distance / radius this;
          phi1 = toRadians (lat this);
          lam1 = toRadians (lon this);
          phi2 = Math_asin (Math_sin phi1 * Math_cos delta +
                            Math_cos phi1 * Math_sin delta * Math_cos theta);
          lam2 = lam1 + Math_atan2 (Math_sin theta * Math_sin delta * Math_cos phi1)
                                   (Math_cos delta - Math_sin phi1 * Math_sin phi2);
          lam2 = js_rem (lam2 + Num 3 * Math_PI) (Num 2 * Math_PI) - Math_PI
      in new_LatLon (VNum (toDegrees phi2)) (VNum (toDegrees lam2)) VUndefined)"

text \<open>\<^verbatim>\<open>LatLon.intersection\<close>; \<open>None\<close> is the result \<^verbatim>\<open>null\<close>.\<close>

definition intersection :: "LatLon \<Rightarrow> jsval \<Rightarrow> LatLon \<Rightarrow> jsval \<Rightarrow> LatLon option" where
  "intersection p1 brng1 p2 brng2 =
     (let phi1 = toRadians (lat p1); lam1 = toRadians (lon p1);
          phi2 = toRadians (lat p2); lam2 = toRadians (lon p2);
          theta13 = toRadians (ToNumber brng1); theta23 = toRadians (ToNumber brng2);
          dphi = phi2 - phi1; dlam = lam2 - lam1;
          delta12 = Num 2 * Math_asin (Math_sqrt (Math_sin (dphi / Num 2) * Math_sin (dphi / Num 2) +
              Math_cos phi1 * Math_cos phi2 * Math_sin (dlam / Num 2) * Math_sin (dlam / Num 2)))
      in if js_eq delta12 (Num 0) then None
         else
          (let theta1 = Math_acos ((Math_sin phi2 - Math_sin phi1 * Math_cos delta12) /
                          (Math_sin delta12 * Math_cos phi1));
               theta1 = (if isNaN theta1 then Num 0 else theta1);
               theta2 = Math_acos ((Math_sin phi1 - Math_sin phi2 * Math_cos delta12) /
                          (Math_sin delta12 * Math_cos phi2));
               theta12 = (if Num 0 < Math_sin (lam2 - lam1) then theta1
                          else Num 2 * Math_PI - theta1);
               theta21 = (if Num 0 < Math_sin (lam2 - lam1) then Num 2 * Math_PI - theta2
                          else theta2);
               alpha1 = js_rem (theta13 - theta12 + Math_PI) (Num 2 * Math_PI) - Math_PI;
               alpha2 = js_rem (theta21 - theta23 + Math_PI) (Num 2 * Math_PI) - Math_PI
           in if js_eq (Math_sin alpha1) (Num 0) \<and> js_eq (Math_sin alpha2) (Num 0) then None
              else if Math_sin alpha1 * Math_sin alpha2 < Num 0 then None
              else
               (let alpha3 = Math_acos (- Math_cos alpha1 * Math_cos alpha2 +
                                Math_sin alpha1 * Math_sin alpha2 * Math_cos delta12);
                    delta13 = Math_atan2 (Math_sin delta12 * Math_sin alpha1 * Math_sin alpha2)
                                (Math_cos alpha2 + Math_cos alpha1 * Math_cos alpha3);
                    phi3 = Math_asin (Math_sin phi1 * Math_cos delta13 +
                              Math_cos phi1 * Math_sin delta13 * Math_cos theta13);
                    dlam13 = Math_atan2 (Math_sin theta13 * Math_sin delta13 * Math_cos phi1)
                               (Math_cos delta13 - Math_sin phi1 * Math_sin phi3);
                    lam3 = lam1 + dlam13;
                    lam3 = js_rem (lam3 + Num 3 * Math_PI) (Num 2 * Math_PI) - Math_PI
                in Some (new_LatLon (VNum (toDegrees phi3)) (VNum (toDegrees lam3)) VUndefined))))"

subsection \<open>Rhumb lines\<close>

text \<open>
  The variables \<^verbatim>\<open>\<Delta>\<phi>\<close>, \<^verbatim>\<open>\<Delta>\<psi>\<close>, \<^verbatim>\<open>q\<close> and \<^verbatim>\<open>\<Delta>\<lambda>\<close> of \<^verbatim>\<open>rhumbDistanceTo\<close>. The
  tolerance is the literal \<^verbatim>\<open>10e-12\<close>.
\<close>

definition rhumbDistanceTo_dphi :: "LatLon \<Rightarrow> LatLon \<Rightarrow> jsnum" where
  "rhumbDistanceTo_dphi this point =
     (let phi1 = toRadians (lat this); phi2 = toRadians (lat point) in phi2 - phi1)"

definition rhumbDistanceTo_dpsi :: "LatLon \<Rightarrow> LatLon \<Rightarrow> jsnum" where
  "rhumbDistanceTo_dpsi this point =
     (let phi1 = toRadians (lat this); phi2 = toRadians (lat point)
      in Math_log (Math_tan (phi2 / Num 2 + Math_PI / Num 4) /
                   Math_tan (phi1 / Num 2 + Math_PI / Num 4)))"

definition rhumbDistanceTo_q :: "LatLon \<Rightarrow> LatLon \<Rightarrow> jsnum" where
  "rhumbDistanceTo_q this point =
     (let phi1 = toRadians (lat this);
          dphi = rhumbDistanceTo_dphi this point;
          dpsi = rhumbDistanceTo_dpsi this point
      in if Num (10 / 10 ^ 12) < Math_abs dpsi then dphi / dpsi else Math_cos phi1)"

definition rhumbDistanceTo_dlam :: "LatLon \<Rightarrow> LatLon \<Rightarrow> jsnum" where
  "rhumbDistanceTo_dlam this point =
     (let dlam = toRadians (Math_abs (lon point - lon this))
      in if Math_PI < Math_abs dlam
         then (if Num 0 < dlam then - (Num 2 * Math_PI - dlam) else Num 2 * Math_PI + dlam)
         else dlam)"

definition rhumbDistanceTo :: "LatLon \<Rightarrow> LatLon \<Rightarrow> (js_error + jsstring) option" where
  "rhumbDistanceTo this point =
     (let R = radius this;
          dphi = rhumbDistanceTo_dphi this point;
          dlam = rhumbDistanceTo_dlam this point;
          q = rhumbDistanceTo_q this point;
          delta = Math_sqrt (dphi * dphi + q * q * dlam * dlam);
          dist = delta * R
      in toPrecisionFixed dist (VNum (Num 4)))"

definition rhumbBearingTo :: "LatLon \<Rightarrow> LatLon \<Rightarrow> jsnum" where
  "rhumbBearingTo this point =
     (let phi1 = toRadians (lat this); phi2 = toRadians (lat point);
          dlam = toRadians (lon point - lon this);
          dlam = (if Math_PI < Math_abs dlam
                  then (if Num 0 < dlam then - (Num 2 * Math_PI - dlam) else Num 2 * Math_PI + dlam)
                  else dlam);
          dpsi = Math_log (Math_tan (phi2 / Num 2 + Math_PI / Num 4) /
                           Math_tan (phi1 / Num 2 + Math_PI / Num 4));
          theta = Math_atan2 dlam dpsi
      in js_rem (toDegrees theta + Num 360) (Num 360))"

text \<open>The variables \<^verbatim>\<open>\<Delta>\<phi>\<close>, \<^verbatim>\<open>\<phi>2\<close>, \<^verbatim>\<open>\<Delta>\<psi>\<close> and \<^verbatim>\<open>q\<close> of \<^verbatim>\<open>rhumbDestinationPoint\<close>.\<close>

definition rhumbDestinationPoint_dphi :: "LatLon \<Rightarrow> jsval \<Rightarrow> jsval \<Rightarrow> jsnum" where
  "rhumbDestinationPoint_dphi this brng distance =
     (let delta = ToNumber distance / radius this;
          theta = toRadians (ToNumber brng)
      in delta * Math_cos theta)"

definition rhumbDestinationPoint_phi2 :: "LatLon \<Rightarrow> jsval \<Rightarrow> jsval \<Rightarrow> jsnum" where
  "rhumbDestinationPoint_phi2 this brng distance =
     (let phi1 = toRadians (lat this);
          phi2 = phi1 + rhumbDestinationPoint_dphi this brng distance
      in if Math_PI / Num 2 < Math_abs phi2
         then (if Num 0 < phi2 then Math_PI - phi2 else - Math_PI - phi2)
         else phi2)"

definition rhumbDestinationPoint_dpsi :: "LatLon \<Rightarrow> jsval \<Rightarrow> jsval \<Rightarrow> jsnum" where
  "rhumbDestinationPoint_dpsi this brng distance =
     (let phi1 = toRadians (lat this);
          phi2 = rhumbDestinationPoint_phi2 this brng distance
      in Math_log (Math_tan (phi2 / Num 2 + Math_PI / Num 4) /
                   Math_tan (phi1 / Num 2 + Math_PI / Num 4)))"

definition rhumbDestinationPoint_q :: "LatLon \<Rightarrow> jsval \<Rightarrow> jsval \<Rightarrow> jsnum" where
  "rhumbDestinationPoint_q this brng distance =
     (let phi1 = toRadians (lat this);
          dphi = rhumbDestinationPoint_dphi this brng distance;
          dpsi = rhumbDestinationPoint_dpsi this brng distance
      in if Num (10 / 10 ^ 12) < Math_abs dpsi then dphi / dpsi else Math_cos phi1)"

text \<open>The longitude \<^verbatim>\<open>\<lambda>2\<close> of \<^verbatim>\<open>rhumbDestinationPoint\<close> before it is normalised.\<close>

definition rhumbDestinationPoint_lam2 :: "LatLon \<Rightarrow> jsval \<Rightarrow> jsval \<Rightarrow> jsnum" where
  "rhumbDestinationPoint_lam2 this brng distance =
     (let delta = ToNumber distance / radius this;
          lam1 = toRadians (lon this);
          theta = toRadians (ToNumber brng);
          q = rhumbDestinationPoint_q this brng distance;
          dlam = delta * Math_sin theta / q
      in lam1 + dlam)"

definition rhumbDestinationPoint :: "LatLon \<Rightarrow> jsval \<Rightarrow> jsval \<Rightarrow> LatLon" where
  "rhumbDestinationPoint this brng distance =
     (let phi2 = rhumbDestinationPoint_phi2 this brng distance;
          lam2 = rhumbDestinationPoint_lam2 this brng distance;
          lam2 = js_rem (lam2 + Num 3 * Math_PI) (Num 2 * Math_PI) - Math_PI
      in new_LatLon (VNum (toDegrees phi2)) (VNum (toDegrees lam2)) VUndefined)"

text \<open>
  The longitude \<^verbatim>\<open>\<lambda>3\<close> of \<^verbatim>\<open>rhumbMidpointTo\<close> before it is normalised (after the
  fallback for a parallel of latitude).
\<close>

definition rhumbMidpointTo_lam3 :: "LatLon \<Rightarrow> LatLon \<Rightarrow> jsnum" where
  "rhumbMidpointTo_lam3 this point =
     (let phi1 = toRadians (lat this); lam1 = toRadians (lon this);
          phi2 = toRadians (lat point); lam2 = toRadians (lon point);
          lam1 = (if Math_PI < Math_abs (lam2 - lam1) then lam1 + Num 2 * Math_PI else lam1);
          phi3 = (phi1 + phi2) / Num 2;
          f1 = Math_tan (Math_PI / Num 4 + phi1 / Num 2);
          f2 = Math_tan (Math_PI / Num 4 + phi2 / Num 2);
          f3 = Math_tan (Math_PI / Num 4 + phi3 / Num 2);
          lam3 = ((lam2 - lam1) * Math_log f3 + lam1 * Math_log f2 - lam2 * Math_log f1) /
                 Math_log (f2 / f1)
      in if \<not> isFinite lam3 then (lam1 + lam2) / Num 2 else lam3)"

definition rhumbMidpointTo :: "LatLon \<Rightarrow> LatLon \<Rightarrow> LatLon" where
  "rhumbMidpointTo this point =
     (let phi1 = toRadians (lat this);
          phi2 = toRadians (lat point);
          phi3 = (phi1 + phi2) / Num 2;
          lam3 = rhumbMidpointTo_lam3 this point;
          lam3 = js_rem (lam3 + Num 3 * Math_PI) (Num 2 * Math_PI) - Math_PI
      in new_LatLon (VNum (toDegrees phi3)) (VNum (toDegrees lam3)) VUndefined)"

section \<open>The conversions of \<^verbatim>\<open>Geo\<close>\<close>

subsection \<open>\<^verbatim>\<open>Geo.parseDMS\<close>\<close>

text \<open>
  \<^verbatim>\<open>split(/[^0-9.,]+/)\<close>: the fields are the maximal runs of digits, points and
  commas; a separator at either end of the string leaves an empty field there.
  \<open>split_field cur s\<close> reads \<open>s\<close> inside a field of which \<open>cur\<close> is already read,
  \<open>split_sep s\<close> reads it inside a separator.
\<close>

definition is_field_char :: "nat \<Rightarrow> bool" where
  "is_field_char c = (is_digit c \<or> c = 46 \<or> c = 44)"

fun split_field :: "jsstring \<Rightarrow> jsstring \<Rightarrow> jsstring list"
  and split_sep :: "jsstring \<Rightarrow> jsstring list" where
  "split_field cur [] = [cur]"
| "split_field cur (c # cs) =
     (if is_field_char c then split_field (cur @ [c]) cs else cur # split_sep cs)"
| "split_sep [] = [[]]"
| "split_sep (c # cs) = (if is_field_char c then split_field [c] cs else split_sep cs)"

text \<open>\<^verbatim>\<open>replace(/^-/,'')\<close> and \<^verbatim>\<open>replace(/[NSEW]$/i,'')\<close>.\<close>

definition strip_minus :: "jsstring \<Rightarrow> jsstring" where
  "strip_minus s = (case s of [] \<Rightarrow> [] | c # r \<Rightarrow> if c = 45 then r else s)"

definition strip_compass :: "jsstring \<Rightarrow> jsstring" where
  "strip_compass s =
     (if s \<noteq> [] \<and> last s \<in> {78, 83, 69, 87, 110, 115, 101, 119} then butlast s else s)"

text \<open>The test \<^verbatim>\<open>/^-|[WS]$/i\<close>.\<close>

definition minus_west_south :: "jsstring \<Rightarrow> bool" where
  "minus_west_south s = (s \<noteq> [] \<and> (hd s = 45 \<or> last s \<in> {87, 83, 119, 115}))"

text \<open>An array compared with a string is first joined with commas.\<close>

fun Array_toString :: "jsstring list \<Rightarrow> jsstring" where
  "Array_toString [] = []"
| "Array_toString [x] = x"
| "Array_toString (x # xs) = x @ ascii '','' @ Array_toString xs"

text \<open>The method call \<^verbatim>\<open>dmsStr.trim()\<close>: only a string has the method.\<close>

fun call_trim :: "jsval \<Rightarrow> js_error + jsstring" where
  "call_trim (VStr s) = Inr (trim s)"
| "call_trim _ = Inl TypeError"

text \<open>
  \<open>parseDMS_dms\<close> is the array \<^verbatim>\<open>dms\<close> of \<^verbatim>\<open>Geo.parseDMS\<close> once a trailing empty
  field has been removed. The guard in the first line of \<^verbatim>\<open>Geo.parseDMS\<close> tests \<^verbatim>\<open>typeof deg\<close>, and \<^verbatim>\<open>deg\<close>
  is the function's own variable, declared by \<^verbatim>\<open>var\<close> further down and not yet
  assigned when the guard runs.
\<close>

definition parseDMS_dms :: "jsval \<Rightarrow> jsstring list" where
  "parseDMS_dms dmsStr =
     (let dms = split_field [] (strip_compass (strip_minus (trim (ToString dmsStr))))
      in if dms \<noteq> [] \<and> last dms = [] then butlast dms else dms)"

definition parseDMS :: "jsval \<Rightarrow> js_error + jsnum" where
  "parseDMS dmsStr =
     (let deg = VUndefined in
      if typeof deg = ascii ''object'' then Inl TypeError
      else if typeof dmsStr = ascii ''number'' \<and> isFinite (ToNumber dmsStr)
        then Inr (ToNumber dmsStr)
      else
       (let dms = parseDMS_dms dmsStr
        in if Array_toString dms = [] then Inr NaN
           else
            (case (case dms of
                     [d, m, s] \<Rightarrow>
                       Some (VNum (StringToNumber d / Num 1 + StringToNumber m / Num 60 +
                                   StringToNumber s / Num 3600))
                   | [d, m] \<Rightarrow> Some (VNum (StringToNumber d / Num 1 + StringToNumber m / Num 60))
                   | [d] \<Rightarrow> Some (VStr d)
                   | _ \<Rightarrow> None) of
               None \<Rightarrow> Inr NaN
             | Some deg \<Rightarrow>
                 (case call_trim dmsStr of
                    Inl err \<Rightarrow> Inl err
                  | Inr t \<Rightarrow>
                      (let deg = (if minus_west_south t then VNum (- ToNumber deg) else deg)
                       in Inr (ToNumber deg))))))"

subsection \<open>\<^verbatim>\<open>Geo.toDMS\<close>\<close>

text \<open>
  The padding steps \<^verbatim>\<open>if (d<100) d = '0' + d\<close>: the comparison converts its operand to
  a number, the sum converts it to a string.
\<close>

definition pad_below :: "real \<Rightarrow> jsval \<Rightarrow> jsval" where
  "pad_below bound v = (if ToNumber v < Num bound then VStr (ascii ''0'' @ ToString v) else v)"

text \<open>
  \<^verbatim>\<open>Geo.toDMS\<close> never declares its variable \<^verbatim>\<open>dms\<close>, so it is a global one. The
  function assigns it in each of the three branches of the second \<^verbatim>\<open>switch\<close>, which
  has no default branch: called with decimal places and an unknown format, it returns
  what the global held before the call, and raises a \<^verbatim>\<open>ReferenceError\<close> when nothing
  was ever assigned. The argument \<open>global_dms\<close> is that earlier content. The result
  \<open>None\<close> is \<^verbatim>\<open>null\<close>.
\<close>

definition toDMS ::
  "jsstring option \<Rightarrow> jsval \<Rightarrow> jsval \<Rightarrow> jsval \<Rightarrow> js_error + jsstring option" where
  "toDMS global_dms deg_arg format_arg dp_arg =
     (if typeof deg_arg = ascii ''object'' then Inl TypeError
      else if isNaN (ToNumber deg_arg) then Inr None
      else
       (let format = (if typeof format_arg = ascii ''undefined'' then VStr (ascii ''dms'')
                      else format_arg);
            known = (format = VStr (ascii ''d'') \<or> format = VStr (ascii ''dm'')
                     \<or> format = VStr (ascii ''dms''));
            dp = (if typeof dp_arg = ascii ''undefined''
                  then (if format = VStr (ascii ''d'') then VNum (Num 4)
                        else if format = VStr (ascii ''dm'') then VNum (Num 2)
                        else VNum (Num 0))
                  else dp_arg);
            format = (if typeof dp_arg = ascii ''undefined'' \<and> \<not> known
                      then VStr (ascii ''dms'') else format);
            deg = Math_abs (ToNumber deg_arg)
        in if format = VStr (ascii ''d'') then
             (case toFixed deg dp of
                Inl err \<Rightarrow> Inl err
              | Inr d \<Rightarrow>
                  (let d = pad_below 10 (pad_below 100 (VStr d))
                   in Inr (Some (ToString d @ degree_sign))))
           else if format = VStr (ascii ''dm'') then
             (case toFixed (deg * Num 60) dp of
                Inl err \<Rightarrow> Inl err
              | Inr min_str \<Rightarrow>
                  (let d = Math_floor (StringToNumber min_str / Num 60) in
                   case toFixed (js_rem (StringToNumber min_str) (Num 60)) dp of
                     Inl err \<Rightarrow> Inl err
                   | Inr m \<Rightarrow>
                       (let d = pad_below 10 (pad_below 100 (VNum d));
                            m = pad_below 10 (VStr m)
                        in Inr (Some (ToString d @ degree_sign @ ToString m @ prime_sign)))))
           else if format = VStr (ascii ''dms'') then
             (case toFixed (deg * Num 3600) dp of
                Inl err \<Rightarrow> Inl err
              | Inr sec \<Rightarrow>
                  (let d = Math_floor (StringToNumber sec / Num 3600);
                       m = js_rem (Math_floor (StringToNumber sec / Num 60)) (Num 60) in
                   case toFixed (js_rem (StringToNumber sec) (Num 60)) dp of
                     Inl err \<Rightarrow> Inl err
                   | Inr s \<Rightarrow>
                       (let d = pad_below 10 (pad_below 100 (VNum d));
                            m = pad_below 10 (VNum m);
                            s = pad_below 10 (VStr s)
                        in Inr (Some (ToString d @ degree_sign @ ToString m @ prime_sign
                                      @ ToString s @ double_prime_sign)))))
           else (case global_dms of
                   None \<Rightarrow> Inl ReferenceError
                 | Some v \<Rightarrow> Inr (Some v))))"

subsection \<open>\<^verbatim>\<open>Geo.toLat\<close>, \<^verbatim>\<open>Geo.toLon\<close> and \<^verbatim>\<open>Geo.toBrng\<close>\<close>

definition toLat :: "jsstring option \<Rightarrow> jsval \<Rightarrow> jsval \<Rightarrow> jsval \<Rightarrow> js_error + jsstring" where
  "toLat global_dms deg format dp =
     (case toDMS global_dms deg format dp of
        Inl err \<Rightarrow> Inl err
      | Inr None \<Rightarrow> Inr en_dash
      | Inr (Some lat_str) \<Rightarrow>
          Inr (drop 1 lat_str @ (if ToNumber deg < Num 0 then ascii ''S'' else ascii ''N'')))"

definition toLon :: "jsstring option \<Rightarrow> jsval \<Rightarrow> jsval \<Rightarrow> jsval \<Rightarrow> js_error + jsstring" where
  "toLon global_dms deg format dp =
     (case toDMS global_dms deg format dp of
        Inl err \<Rightarrow> Inl err
      | Inr None \<Rightarrow> Inr en_dash
      | Inr (Some lon_str) \<Rightarrow>
          Inr (lon_str @ (if ToNumber deg < Num 0 then ascii ''W'' else ascii ''E'')))"

text \<open>\<^verbatim>\<open>String.prototype.replace\<close> with a string pattern replaces its first occurrence.\<close>

fun replace_first :: "jsstring \<Rightarrow> jsstring \<Rightarrow> jsstring \<Rightarrow> jsstring" where
  "replace_first pat rep [] = (if pat = [] then rep else [])"
| "replace_first pat rep (c # cs) =
     (if take (length pat) (c # cs) = pat then rep @ drop (length pat) (c # cs)
      else c # replace_first pat rep cs)"

text \<open>The first line of \<^verbatim>\<open>Geo.toBrng\<close>: \<^verbatim>\<open>(Number(deg)+360) % 360\<close>.\<close>

definition toBrng_normalise :: "jsval \<Rightarrow> jsnum" where
  "toBrng_normalise deg = js_rem (ToNumber deg + Num 360) (Num 360)"

definition toBrng :: "jsstring option \<Rightarrow> jsval \<Rightarrow> jsval \<Rightarrow> jsval \<Rightarrow> js_error + jsstring" where
  "toBrng global_dms deg format dp =
     (let deg = VNum (toBrng_normalise deg) in
      case toDMS global_dms deg format dp of
        Inl err \<Rightarrow> Inl err
      | Inr None \<Rightarrow> Inr en_dash
      | Inr (Some brng) \<Rightarrow> Inr (replace_first (ascii ''360'') (ascii ''0'') brng))"

section \<open>Predicates used in the statements\<close>

text \<open>\<open>has_substring pat s\<close>: the string \<open>pat\<close> occurs in \<open>s\<close>.\<close>

fun has_substring :: "jsstring \<Rightarrow> jsstring \<Rightarrow> bool" where
  "has_substring pat [] = (pat = [])"
| "has_substring pat (c # cs) = (take (length pat) (c # cs) = pat \<or> has_substring pat cs)"


section \<open>Example inputs\<close>

text \<open>
  The points used to instantiate the theorems below: the origin, the point 30 degrees
  north of it, points on the equator, the north pole, and the two points of the sample
  usage in the header of the library.
\<close>

definition pt_origin :: LatLon where
  "pt_origin = new_LatLon (VNum (Num 0)) (VNum (Num 0)) VUndefined"

definition pt_north30 :: LatLon where
  "pt_north30 = new_LatLon (VNum (Num 30)) (VNum (Num 0)) VUndefined"

definition pt_east90 :: LatLon where
  "pt_east90 = new_LatLon (VNum (Num 0)) (VNum (Num 90)) VUndefined"

definition pt_east180 :: LatLon where
  "pt_east180 = new_LatLon (VNum (Num 0)) (VNum (Num 180)) VUndefined"

definition pt_west720 :: LatLon where
  "pt_west720 = new_LatLon (VNum (Num 0)) (VNum (Num (- 720))) VUndefined"

definition pt_pole :: LatLon where
  "pt_pole = new_LatLon (VNum (Num 90)) (VNum (Num 90)) VUndefined"

definition pt_sample1 :: LatLon where
  "pt_sample1 = new_LatLon (VNum (Num 51.5136)) (VNum (Num (- 0.0983))) VUndefined"

definition pt_sample2 :: LatLon where
  "pt_sample2 = new_LatLon (VNum (Num 51.4778)) (VNum (Num (- 0.0015))) VUndefined"

section \<open>Arithmetic of the number model\<close>

lemma Num_plus [simp]: "Num a + Num b = Num (a + b)"
  by (simp add: plus_jsnum_def)

lemma Num_minus [simp]: "Num a - Num b = Num (a - b)"
  by (simp add: minus_jsnum_def)

lemma Num_uminus [simp]: "- Num a = Num (- a)"
  by (simp add: uminus_jsnum_def)

lemma Num_times [simp]: "Num a * Num b = Num (a * b)"
  by (simp add: times_jsnum_def)

lemma Num_divide [simp]: "b \<noteq> 0 \<Longrightarrow> Num a / Num b = Num (a / b)"
  by (simp add: divide_jsnum_def)

lemma Num_less [simp]: "(Num a < Num b) = (a < b)"
  by (simp add: less_jsnum_def)

lemma toRadians_Num [simp]: "toRadians (Num a) = Num (a * pi / 180)"
  by (simp add: toRadians_def Math_PI_def)

lemma toDegrees_Num [simp]: "toDegrees (Num a) = Num (a * 180 / pi)"
  by (simp add: toDegrees_def Math_PI_def)

lemma js_mul_commute: "js_mul x y = js_mul y x"
  by (cases x; cases y) simp_all

lemma js_mul_flip_flip: "js_mul (flip s) (flip s) = js_mul s s"
  by (cases s) simp_all

lemma js_mul_mul_flip_flip: "js_mul (js_mul x (flip s)) (flip s) = js_mul (js_mul x s) s"
  by (cases x; cases s) auto

lemma js_less_asym: "\<not> (x < y \<and> y < x)" for x y :: jsnum
  by (cases x; cases y) (simp_all add: less_jsnum_def)

lemma atan2_bounds: "- pi < atan2 y x \<and> atan2 y x \<le> pi"
proof -
  have b: "- (pi / 2) < arctan (y / x)" "arctan (y / x) < pi / 2"
    by (rule arctan_lbound, rule arctan_ubound)
  consider "0 < x" | "x < 0" "0 \<le> y" | "x < 0" "y < 0" | "x = 0"
    by linarith
  then show ?thesis
  proof cases
    case 1
    then show ?thesis
      using b by (simp add: atan2_def)
  next
    case 2
    then have "y / x \<le> 0"
      by (simp add: divide_nonneg_neg)
    then have "arctan (y / x) \<le> 0"
      by (simp add: arctan_le_zero_iff)
    then show ?thesis
      using 2 b by (simp add: atan2_def)
  next
    case 3
    then have "0 < y / x"
      by (simp add: divide_neg_neg)
    then have "0 < arctan (y / x)"
      by (simp add: zero_less_arctan_iff)
    then show ?thesis
      using 3 b by (simp add: atan2_def)
  next
    case 4
    have "- (pi / 2) \<le> pi"
      using pi_gt_zero by linarith
    then show ?thesis
      using 4 pi_gt_zero by (auto simp: atan2_def; linarith)
  qed
qed

text \<open>The remainder of a non-negative dividend lies in \<open>[0, b)\<close>.\<close>

lemma floor_rem_bounds:
  fixes a b :: real
  assumes "0 < b"
  shows "0 \<le> a - b * of_int \<lfloor>a / b\<rfloor>" "a - b * of_int \<lfloor>a / b\<rfloor> < b"
proof -
  have "of_int \<lfloor>a / b\<rfloor> * b \<le> a"
    using pos_le_divide_eq [OF assms, of "of_int \<lfloor>a / b\<rfloor>" a] of_int_floor_le [of "a / b"]
    by blast
  then show "0 \<le> a - b * of_int \<lfloor>a / b\<rfloor>"
    by (simp add: mult.commute)
  have "a / b < of_int \<lfloor>a / b\<rfloor> + 1"
    by linarith
  then have "a < (of_int \<lfloor>a / b\<rfloor> + 1) * b"
    using pos_divide_less_eq [OF assms, of a "of_int \<lfloor>a / b\<rfloor> + 1"] by blast
  then show "a - b * of_int \<lfloor>a / b\<rfloor> < b"
    by (simp add: algebra_simps)
qed

lemma js_rem_nonneg:
  assumes "0 \<le> a" "0 < b"
  shows "js_rem (Num a) (Num b) = Num (a - b * of_int \<lfloor>a / b\<rfloor>)"
  using assms by (simp add: trunc_def)

lemma js_rem_small: "0 \<le> a \<Longrightarrow> a < b \<Longrightarrow> js_rem (Num a) (Num b) = Num a"
  using js_rem_nonneg [of a b] by (simp add: floor_eq_iff)

lemma radius_new_LatLon: "radius (new_LatLon a b VUndefined) = Num 6371"
  by (simp add: new_LatLon_def)

lemma pt_simps:
  "lat pt_origin = Num 0" "lon pt_origin = Num 0" "radius pt_origin = Num 6371"
  "lat pt_north30 = Num 30" "lon pt_north30 = Num 0" "radius pt_north30 = Num 6371"
  "lat pt_east90 = Num 0" "lon pt_east90 = Num 90" "radius pt_east90 = Num 6371"
  "lat pt_east180 = Num 0" "lon pt_east180 = Num 180" "radius pt_east180 = Num 6371"
  "lat pt_west720 = Num 0" "lon pt_west720 = Num (- 720)" "radius pt_west720 = Num 6371"
  "radius pt_sample1 = Num 6371" "radius pt_sample2 = Num 6371"
  by (simp_all add: pt_origin_def pt_north30_def pt_east90_def pt_east180_def pt_west720_def
      pt_sample1_def pt_sample2_def new_LatLon_def)

section \<open>Symmetry of the great-circle distance\<close>

lemma sin_half_diff: "Math_sin ((v - u) / Num 2) = flip (Math_sin ((u - v) / Num 2))"
proof (cases u; cases v)
  fix a b
  assume "u = Num a" "v = Num b"
  moreover have "sin ((b - a) / 2) = - sin ((a - b) / 2)"
    by (metis minus_diff_eq minus_divide_left sin_minus)
  ultimately show ?thesis
    by simp
qed (simp_all add: minus_jsnum_def divide_jsnum_def)

text \<open>
  Claim C9. Two points with the same radius are at the same distance from each other
  in both directions: \<^verbatim>\<open>p1.distanceTo(p2)\<close> and \<^verbatim>\<open>p2.distanceTo(p1)\<close> are the same
  string (or raise the same error), at every precision. In exact arithmetic this
  holds for antipodal points as well.
\<close>

theorem distanceTo_symmetric:
  assumes "radius p1 = radius p2"
  shows "distanceTo p1 p2 precision = distanceTo p2 p1 precision"
proof -
  have "Math_cos (toRadians (lat p1)) * Math_cos (toRadians (lat p2))
        = Math_cos (toRadians (lat p2)) * Math_cos (toRadians (lat p1))"
    by (simp add: times_jsnum_def js_mul_commute)
  then show ?thesis
    unfolding distanceTo_def Let_def
    using assms
    by (simp add: sin_half_diff [of "toRadians (lat p1)" "toRadians (lat p2)"]
        sin_half_diff [of "toRadians (lon p1)" "toRadians (lon p2)"]
        times_jsnum_def js_mul_flip_flip js_mul_mul_flip_flip)
qed

theorem distanceTo_symmetric_witness:
  "radius pt_sample1 = radius pt_sample2
   \<and> distanceTo pt_sample1 pt_sample2 (VNum (Num 4))
       = distanceTo pt_sample2 pt_sample1 (VNum (Num 4))"
  using distanceTo_symmetric [of pt_sample1 pt_sample2 "VNum (Num 4)"]
  by (simp add: pt_simps)

section \<open>The stretch factor of the rhumb-line formulae\<close>

lemma ln_sqrt3_ge: "1 / 2 \<le> ln (sqrt 3)"
proof -
  have "exp 1 \<le> (3 :: real)"
    by (rule exp_le)
  then have "ln (exp 1) \<le> ln (3 :: real)"
    by (subst ln_le_cancel_iff) simp_all
  then have "1 \<le> ln (3 :: real)"
    by simp
  moreover have "ln (sqrt 3) = ln 3 / 2"
    by (simp add: ln_sqrt)
  ultimately show ?thesis
    by simp
qed

lemma pi_not_pole: "pi \<noteq> - (pi * 3 / 2)"
  using pi_gt_zero by linarith

lemma dpsi_north30: "rhumbDistanceTo_dpsi pt_origin pt_north30 = Num (ln (sqrt 3))"
  by (simp add: rhumbDistanceTo_dpsi_def Let_def pt_simps Math_PI_def cos_60 tan_60 cos_45 tan_45
      pi_not_pole)

lemma dpsi_same: "rhumbDistanceTo_dpsi pt_origin pt_origin = Num 0"
  by (simp add: rhumbDistanceTo_dpsi_def Let_def pt_simps Math_PI_def cos_45 tan_45)

lemma dpsi_pole: "rhumbDistanceTo_dpsi pt_origin pt_pole = Num (ln 16331239353195370)"
  by (simp add: rhumbDistanceTo_dpsi_def Let_def pt_simps pt_pole_def new_LatLon_def Math_PI_def
      cos_45 tan_45)

lemma ln_pole_ge: "1 \<le> ln (16331239353195370 :: real)"
proof -
  have "exp 1 \<le> (3 :: real)"
    by (rule exp_le)
  then have "exp 1 \<le> (16331239353195370 :: real)"
    by simp
  then have "ln (exp 1) \<le> ln (16331239353195370 :: real)"
    by (subst ln_le_cancel_iff) simp_all
  then show ?thesis
    by simp
qed

lemma dest_dpsi_north30:
  "rhumbDestinationPoint_dpsi pt_origin (VNum (Num 0)) (VNum (Num (6371 * pi / 6)))
   = Num (ln (sqrt 3))"
proof -
  have "\<not> pi / 2 < pi / 6"
    using pi_gt_zero by simp
  then show ?thesis
    by (simp add: rhumbDestinationPoint_dpsi_def rhumbDestinationPoint_phi2_def
      rhumbDestinationPoint_dphi_def Let_def pt_simps Math_PI_def cos_60 tan_60 cos_45 tan_45
      pi_not_pole)
qed

lemma dest_dpsi_zero:
  "rhumbDestinationPoint_dpsi pt_origin (VNum (Num 0)) (VNum (Num 0)) = Num 0"
  by (simp add: rhumbDestinationPoint_dpsi_def rhumbDestinationPoint_phi2_def
      rhumbDestinationPoint_dphi_def Let_def pt_simps Math_PI_def cos_45 tan_45)

text \<open>
  Claim C6. In \<^verbatim>\<open>rhumbDistanceTo\<close> and in \<^verbatim>\<open>rhumbDestinationPoint\<close> the stretch
  factor \<^verbatim>\<open>q\<close> is \<^verbatim>\<open>\<Delta>\<phi>/\<Delta>\<psi>\<close> when \<^verbatim>\<open>|\<Delta>\<psi>|\<close> exceeds \<open>10\<^sup>-\<^sup>1\<^sup>1\<close> and \<^verbatim>\<open>cos \<phi>1\<close> when it
  is below or equal to it; the tolerance, written \<^verbatim>\<open>10e-12\<close> in both functions, is
  exactly \<open>10\<^sup>-\<^sup>1\<^sup>1\<close>. The distance that \<^verbatim>\<open>rhumbDistanceTo\<close> returns and the longitude
  of the point that \<^verbatim>\<open>rhumbDestinationPoint\<close> returns are computed from that factor.
\<close>

theorem rhumb_stretch_factor:
  "(Num (1 / 10 ^ 11) < Math_abs (rhumbDistanceTo_dpsi this point) \<longrightarrow>
      rhumbDistanceTo_q this point
        = rhumbDistanceTo_dphi this point / rhumbDistanceTo_dpsi this point
      \<and> rhumbDistanceTo this point
        = toPrecisionFixed
            (Math_sqrt (rhumbDistanceTo_dphi this point * rhumbDistanceTo_dphi this point
               + (rhumbDistanceTo_dphi this point / rhumbDistanceTo_dpsi this point)
                 * (rhumbDistanceTo_dphi this point / rhumbDistanceTo_dpsi this point)
                 * rhumbDistanceTo_dlam this point * rhumbDistanceTo_dlam this point)
             * radius this)
            (VNum (Num 4)))
   \<and> (Math_abs (rhumbDistanceTo_dpsi this point) < Num (1 / 10 ^ 11)
        \<or> Math_abs (rhumbDistanceTo_dpsi this point) = Num (1 / 10 ^ 11) \<longrightarrow>
      rhumbDistanceTo_q this point = Math_cos (toRadians (lat this))
      \<and> rhumbDistanceTo this point
        = toPrecisionFixed
            (Math_sqrt (rhumbDistanceTo_dphi this point * rhumbDistanceTo_dphi this point
               + Math_cos (toRadians (lat this)) * Math_cos (toRadians (lat this))
                 * rhumbDistanceTo_dlam this point * rhumbDistanceTo_dlam this point)
             * radius this)
            (VNum (Num 4)))
   \<and> (Num (1 / 10 ^ 11) < Math_abs (rhumbDestinationPoint_dpsi this brng d) \<longrightarrow>
      rhumbDestinationPoint_q this brng d
        = rhumbDestinationPoint_dphi this brng d / rhumbDestinationPoint_dpsi this brng d
      \<and> lon (rhumbDestinationPoint this brng d)
        = toDegrees
            (js_rem
               (toRadians (lon this)
                  + ToNumber d / radius this * Math_sin (toRadians (ToNumber brng))
                    / (rhumbDestinationPoint_dphi this brng d
                       / rhumbDestinationPoint_dpsi this brng d)
                  + Num 3 * Math_PI)
               (Num 2 * Math_PI)
             - Math_PI))
   \<and> (Math_abs (rhumbDestinationPoint_dpsi this brng d) < Num (1 / 10 ^ 11)
        \<or> Math_abs (rhumbDestinationPoint_dpsi this brng d) = Num (1 / 10 ^ 11) \<longrightarrow>
      rhumbDestinationPoint_q this brng d = Math_cos (toRadians (lat this))
      \<and> lon (rhumbDestinationPoint this brng d)
        = toDegrees
            (js_rem
               (toRadians (lon this)
                  + ToNumber d / radius this * Math_sin (toRadians (ToNumber brng))
                    / Math_cos (toRadians (lat this))
                  + Num 3 * Math_PI)
               (Num 2 * Math_PI)
             - Math_PI))"
proof -
  have t: "Num (10 / 10 ^ 12) = Num (1 / 10 ^ 11)"
    by simp
  have n: "\<not> x < x" for x :: jsnum
    using js_less_asym [of x x] by simp
  have q1: "rhumbDistanceTo_q this point
      = rhumbDistanceTo_dphi this point / rhumbDistanceTo_dpsi this point"
    if "Num (1 / 10 ^ 11) < Math_abs (rhumbDistanceTo_dpsi this point)"
    using that unfolding rhumbDistanceTo_q_def Let_def t by simp
  have q2: "rhumbDistanceTo_q this point = Math_cos (toRadians (lat this))"
    if "Math_abs (rhumbDistanceTo_dpsi this point) < Num (1 / 10 ^ 11)
      \<or> Math_abs (rhumbDistanceTo_dpsi this point) = Num (1 / 10 ^ 11)"
    using that js_less_asym n unfolding rhumbDistanceTo_q_def Let_def t by auto
  have q3: "rhumbDestinationPoint_q this brng d
      = rhumbDestinationPoint_dphi this brng d / rhumbDestinationPoint_dpsi this brng d"
    if "Num (1 / 10 ^ 11) < Math_abs (rhumbDestinationPoint_dpsi this brng d)"
    using that unfolding rhumbDestinationPoint_q_def Let_def t by simp
  have q4: "rhumbDestinationPoint_q this brng d = Math_cos (toRadians (lat this))"
    if "Math_abs (rhumbDestinationPoint_dpsi this brng d) < Num (1 / 10 ^ 11)
      \<or> Math_abs (rhumbDestinationPoint_dpsi this brng d) = Num (1 / 10 ^ 11)"
    using that js_less_asym n unfolding rhumbDestinationPoint_q_def Let_def t by auto
  have dist: "rhumbDistanceTo this point
      = toPrecisionFixed
          (Math_sqrt (rhumbDistanceTo_dphi this point * rhumbDistanceTo_dphi this point
             + rhumbDistanceTo_q this point * rhumbDistanceTo_q this point
               * rhumbDistanceTo_dlam this point * rhumbDistanceTo_dlam this point)
           * radius this)
          (VNum (Num 4))"
    by (simp add: rhumbDistanceTo_def Let_def)
  have dest: "lon (rhumbDestinationPoint this brng d)
      = toDegrees
          (js_rem
             (toRadians (lon this)
                + ToNumber d / radius this * Math_sin (toRadians (ToNumber brng))
                  / rhumbDestinationPoint_q this brng d
                + Num 3 * Math_PI)
             (Num 2 * Math_PI)
           - Math_PI)"
    by (simp add: rhumbDestinationPoint_def rhumbDestinationPoint_lam2_def new_LatLon_def Let_def)
  show ?thesis
  proof (intro conjI impI)
    assume a: "Num (1 / 10 ^ 11) < Math_abs (rhumbDistanceTo_dpsi this point)"
    show "rhumbDistanceTo_q this point
        = rhumbDistanceTo_dphi this point / rhumbDistanceTo_dpsi this point"
      using a by (rule q1)
    show "rhumbDistanceTo this point
        = toPrecisionFixed
            (Math_sqrt (rhumbDistanceTo_dphi this point * rhumbDistanceTo_dphi this point
               + (rhumbDistanceTo_dphi this point / rhumbDistanceTo_dpsi this point)
                 * (rhumbDistanceTo_dphi this point / rhumbDistanceTo_dpsi this point)
                 * rhumbDistanceTo_dlam this point * rhumbDistanceTo_dlam this point)
             * radius this)
            (VNum (Num 4))"
      using dist by (simp only: q1 [OF a])
  next
    assume a: "Math_abs (rhumbDistanceTo_dpsi this point) < Num (1 / 10 ^ 11)
        \<or> Math_abs (rhumbDistanceTo_dpsi this point) = Num (1 / 10 ^ 11)"
    show "rhumbDistanceTo_q this point = Math_cos (toRadians (lat this))"
      using a by (rule q2)
    show "rhumbDistanceTo this point
        = toPrecisionFixed
            (Math_sqrt (rhumbDistanceTo_dphi this point * rhumbDistanceTo_dphi this point
               + Math_cos (toRadians (lat this)) * Math_cos (toRadians (lat this))
                 * rhumbDistanceTo_dlam this point * rhumbDistanceTo_dlam this point)
             * radius this)
            (VNum (Num 4))"
      using dist by (simp only: q2 [OF a])
  next
    assume a: "Num (1 / 10 ^ 11) < Math_abs (rhumbDestinationPoint_dpsi this brng d)"
    show "rhumbDestinationPoint_q this brng d
        = rhumbDestinationPoint_dphi this brng d / rhumbDestinationPoint_dpsi this brng d"
      using a by (rule q3)
    show "lon (rhumbDestinationPoint this brng d)
        = toDegrees
            (js_rem
               (toRadians (lon this)
                  + ToNumber d / radius this * Math_sin (toRadians (ToNumber brng))
                    / (rhumbDestinationPoint_dphi this brng d
                       / rhumbDestinationPoint_dpsi this brng d)
                  + Num 3 * Math_PI)
               (Num 2 * Math_PI)
             - Math_PI)"
      using dest by (simp only: q3 [OF a])
  next
    assume a: "Math_abs (rhumbDestinationPoint_dpsi this brng d) < Num (1 / 10 ^ 11)
        \<or> Math_abs (rhumbDestinationPoint_dpsi this brng d) = Num (1 / 10 ^ 11)"
    show "rhumbDestinationPoint_q this brng d = Math_cos (toRadians (lat this))"
      using a by (rule q4)
    show "lon (rhumbDestinationPoint this brng d)
        = toDegrees
            (js_rem
               (toRadians (lon this)
                  + ToNumber d / radius this * Math_sin (toRadians (ToNumber brng))
                    / Math_cos (toRadians (lat this))
                  + Num 3 * Math_PI)
               (Num 2 * Math_PI)
             - Math_PI)"
      using dest by (simp only: q4 [OF a])
  qed
qed

text \<open>
  The theorem at the origin and the point 30 degrees north of it, at the origin twice,
  and at the origin and the north pole, where \<^verbatim>\<open>\<Delta>\<psi>\<close> is the logarithm of the tangent
  of \<^verbatim>\<open>Math.PI/2\<close>.
\<close>

theorem rhumb_stretch_factor_witness:
  "Num (1 / 10 ^ 11) < Math_abs (rhumbDistanceTo_dpsi pt_origin pt_north30)
   \<and> rhumbDistanceTo_q pt_origin pt_north30
       = rhumbDistanceTo_dphi pt_origin pt_north30 / rhumbDistanceTo_dpsi pt_origin pt_north30
   \<and> Math_abs (rhumbDistanceTo_dpsi pt_origin pt_origin) < Num (1 / 10 ^ 11)
   \<and> rhumbDistanceTo_q pt_origin pt_origin = Math_cos (toRadians (lat pt_origin))
   \<and> Num (1 / 10 ^ 11) < Math_abs (rhumbDistanceTo_dpsi pt_origin pt_pole)
   \<and> rhumbDistanceTo_q pt_origin pt_pole
       = rhumbDistanceTo_dphi pt_origin pt_pole / rhumbDistanceTo_dpsi pt_origin pt_pole
   \<and> Num (1 / 10 ^ 11)
       < Math_abs (rhumbDestinationPoint_dpsi pt_origin (VNum (Num 0)) (VNum (Num (6371 * pi / 6))))
   \<and> rhumbDestinationPoint_q pt_origin (VNum (Num 0)) (VNum (Num (6371 * pi / 6)))
       = rhumbDestinationPoint_dphi pt_origin (VNum (Num 0)) (VNum (Num (6371 * pi / 6)))
         / rhumbDestinationPoint_dpsi pt_origin (VNum (Num 0)) (VNum (Num (6371 * pi / 6)))
   \<and> Math_abs (rhumbDestinationPoint_dpsi pt_origin (VNum (Num 0)) (VNum (Num 0)))
       < Num (1 / 10 ^ 11)
   \<and> rhumbDestinationPoint_q pt_origin (VNum (Num 0)) (VNum (Num 0))
       = Math_cos (toRadians (lat pt_origin))"
proof -
  have g: "1 / 10 ^ 11 < \<bar>ln (sqrt 3)\<bar>"
    using ln_sqrt3_ge by simp
  have h: "1 / 10 ^ 11 < \<bar>ln (16331239353195370 :: real)\<bar>"
    using ln_pole_ge by simp
  have a: "Num (1 / 10 ^ 11) < Math_abs (rhumbDistanceTo_dpsi pt_origin pt_north30)"
    using g by (simp add: dpsi_north30)
  have b: "Math_abs (rhumbDistanceTo_dpsi pt_origin pt_origin) < Num (1 / 10 ^ 11)"
    by (simp add: dpsi_same)
  have c: "Num (1 / 10 ^ 11)
       < Math_abs (rhumbDestinationPoint_dpsi pt_origin (VNum (Num 0)) (VNum (Num (6371 * pi / 6))))"
    using g by (simp add: dest_dpsi_north30)
  have d: "Math_abs (rhumbDestinationPoint_dpsi pt_origin (VNum (Num 0)) (VNum (Num 0)))
       < Num (1 / 10 ^ 11)"
    by (simp add: dest_dpsi_zero)
  have e: "Num (1 / 10 ^ 11) < Math_abs (rhumbDistanceTo_dpsi pt_origin pt_pole)"
    using h by (simp add: dpsi_pole)
  show ?thesis
    using a b c d e
      rhumb_stretch_factor [of pt_origin pt_north30 "VNum (Num 0)" "VNum (Num (6371 * pi / 6))"]
      rhumb_stretch_factor [of pt_origin pt_origin "VNum (Num 0)" "VNum (Num 0)"]
      rhumb_stretch_factor [of pt_origin pt_pole "VNum (Num 0)" "VNum (Num 0)"]
    by simp
qed

section \<open>Initial and final bearing\<close>

lemma rem_congr:
  fixes x y :: real
  assumes "x - y = 360 * of_int k"
  shows "x - 360 * of_int \<lfloor>x / 360\<rfloor> = y - 360 * of_int \<lfloor>y / 360\<rfloor>"
proof -
  have e: "x / 360 = y / 360 + of_int k"
    using assms by (simp add: field_simps)
  have "\<lfloor>x / 360\<rfloor> = \<lfloor>y / 360 + of_int k\<rfloor>"
    by (simp only: e)
  also have "\<dots> = \<lfloor>y / 360\<rfloor> + k"
    by (simp only: floor_add_int)
  finally show ?thesis
    using assms by simp
qed

text \<open>
  Both functions reduce the same angle \<open>t\<close>, the result of \<^verbatim>\<open>Math.atan2\<close>: one adds
  360 degrees to it, the other 180.
\<close>

lemma bearing_of_angle:
  assumes "- pi < t" "t \<le> pi"
  shows "\<exists>b f. js_rem (toDegrees (Num t) + Num 360) (Num 360) = Num b \<and> 0 \<le> b \<and> b < 360
     \<and> js_rem (toDegrees (Num t) + Num 180) (Num 360) = Num f \<and> 0 \<le> f \<and> f < 360
     \<and> js_rem (Num b + Num 180) (Num 360) = Num f"
proof -
  define d where "d = t * 180 / pi"
  have d: "- 180 < d" "d \<le> 180"
    using assms pi_gt_zero by (simp_all add: d_def field_simps)
  define b where "b = d + 360 - 360 * of_int \<lfloor>(d + 360) / 360\<rfloor>"
  define f where "f = d + 180 - 360 * of_int \<lfloor>(d + 180) / 360\<rfloor>"
  have b: "0 \<le> b" "b < 360"
    using floor_rem_bounds [of 360 "d + 360"] by (simp_all add: b_def)
  have f: "0 \<le> f" "f < 360"
    using floor_rem_bounds [of 360 "d + 180"] by (simp_all add: f_def)
  have eb: "js_rem (Num (d + 360)) (Num 360) = Num b"
    using d js_rem_nonneg [of "d + 360" 360] by (simp add: b_def)
  have ef: "js_rem (Num (d + 180)) (Num 360) = Num f"
    using d js_rem_nonneg [of "d + 180" 360] by (simp add: f_def)
  have "(b + 180) - (d + 180) = 360 * of_int (1 - \<lfloor>(d + 360) / 360\<rfloor>)"
    by (simp add: b_def)
  then have "b + 180 - 360 * of_int \<lfloor>(b + 180) / 360\<rfloor> = f"
    unfolding f_def by (rule rem_congr)
  then have eg: "js_rem (Num (b + 180)) (Num 360) = Num f"
    using b js_rem_nonneg [of "b + 180" 360] by simp
  show ?thesis
    using eb ef eg b f by (simp add: d_def)
qed

text \<open>
  Both bearings lie in \<open>[0, 360)\<close> for two points with finite coordinates. (That the
  final bearing is the reverse bearing plus 180 degrees modulo 360, as in the lemma
  above, is a fact of exact arithmetic: the program rounds the two sums \<^verbatim>\<open>\<theta>+360\<close> and
  \<^verbatim>\<open>\<theta>+180\<close> separately, and its two results can differ in the last binary digit.)
\<close>

theorem bearing_range:
  assumes "isFinite (lat p1)" "isFinite (lon p1)" "isFinite (lat p2)" "isFinite (lon p2)"
  shows "\<exists>b f. bearingTo p2 p1 = Num b \<and> 0 \<le> b \<and> b < 360
     \<and> finalBearingTo p1 p2 = Num f \<and> 0 \<le> f \<and> f < 360"
proof -
  obtain a1 o1 a2 o2
    where c: "lat p1 = Num a1" "lon p1 = Num o1" "lat p2 = Num a2" "lon p2 = Num o2"
    using assms by (metis isFinite.elims(2))
  define t where "t = atan2 (sin ((o1 - o2) * pi / 180) * cos (a1 * pi / 180))
     (cos (a2 * pi / 180) * sin (a1 * pi / 180)
       - sin (a2 * pi / 180) * cos (a1 * pi / 180) * cos ((o1 - o2) * pi / 180))"
  have t: "- pi < t" "t \<le> pi"
    using atan2_bounds by (simp_all add: t_def)
  have 1: "bearingTo p2 p1 = js_rem (toDegrees (Num t) + Num 360) (Num 360)"
    by (simp add: bearingTo_def Let_def c t_def)
  have 2: "finalBearingTo p1 p2 = js_rem (toDegrees (Num t) + Num 180) (Num 360)"
    by (simp add: finalBearingTo_def Let_def c t_def)
  show ?thesis
    unfolding 1 2 using bearing_of_angle [OF t] by auto
qed

theorem bearing_range_witness:
  "\<exists>b f. bearingTo pt_sample2 pt_sample1 = Num b \<and> 0 \<le> b \<and> b < 360
     \<and> finalBearingTo pt_sample1 pt_sample2 = Num f \<and> 0 \<le> f \<and> f < 360"
  by (rule bearing_range) (simp_all add: pt_sample1_def pt_sample2_def new_LatLon_def)

section \<open>The radius of a computed point\<close>

lemma arcsin_sqrt_half: "arcsin (sqrt (1 / 2)) = pi / 4"
proof -
  have "arcsin (sin (pi / 4)) = pi / 4"
    using pi_gt_zero by (intro arcsin_sin) simp_all
  then have a: "arcsin (sqrt 2 / 2) = pi / 4"
    by (simp add: sin_45)
  have h: "sqrt (1 / 2) = sqrt 2 / 2"
    by (simp add: real_sqrt_divide real_div_sqrt)
  show ?thesis
    by (simp only: h a)
qed

lemma sqrt_half_ge: "- 1 \<le> sqrt (1 / 2 :: real)"
proof -
  have "0 \<le> sqrt (1 / 2 :: real)"
    by (rule real_sqrt_ge_zero) simp
  then show ?thesis
    by linarith
qed

text \<open>
  The paths that leave the points \<open>(0, 0)\<close> and \<open>(0, 90)\<close> due north meet at the pole.
\<close>

lemma intersection_north_pole:
  "intersection pt_origin (VNum (Num 0)) pt_east90 (VNum (Num 0))
   = Some \<lparr>lat = Num 90, lon = Num 0, radius = Num 6371\<rparr>"
  by (simp add: intersection_def Let_def pt_simps Math_PI_def js_eq_def isNaN_def
      sin_45 cos_45 arcsin_sqrt_half sqrt_half_ge js_rem_small trunc_def
      atan2_def new_LatLon_def)

text \<open>
  Claim C10. Every point returned by \<^verbatim>\<open>midpointTo\<close>, \<^verbatim>\<open>destinationPoint\<close>,
  \<^verbatim>\<open>intersection\<close>, \<^verbatim>\<open>rhumbDestinationPoint\<close> and \<^verbatim>\<open>rhumbMidpointTo\<close> has the default
  radius 6371, whatever the radii of the points it was computed from.
\<close>

theorem result_radius_default:
  "radius (midpointTo p q) = Num 6371
   \<and> radius (destinationPoint p brng d) = Num 6371
   \<and> (\<forall>r. intersection p brng q brng2 = Some r \<longrightarrow> radius r = Num 6371)
   \<and> radius (rhumbDestinationPoint p brng d) = Num 6371
   \<and> radius (rhumbMidpointTo p q) = Num 6371"
proof -
  have "radius r = Num 6371" if "intersection p brng q brng2 = Some r" for r
    using that unfolding intersection_def Let_def
    by (auto simp: radius_new_LatLon split: if_splits)
  then show ?thesis
    by (simp add: midpointTo_def destinationPoint_def rhumbDestinationPoint_def
        rhumbMidpointTo_def Let_def radius_new_LatLon)
qed

theorem result_radius_default_witness:
  "intersection (pt_origin\<lparr>radius := Num 1\<rparr>) (VNum (Num 0)) (pt_east90\<lparr>radius := Num 2\<rparr>)
      (VNum (Num 0))
     = Some \<lparr>lat = Num 90, lon = Num 0, radius = Num 6371\<rparr>
   \<and> radius (midpointTo (pt_origin\<lparr>radius := Num 1\<rparr>) (pt_east90\<lparr>radius := Num 2\<rparr>)) = Num 6371
   \<and> radius (destinationPoint (pt_origin\<lparr>radius := Num 1\<rparr>) (VNum (Num 0)) (VNum (Num 0))) = Num 6371
   \<and> radius (rhumbDestinationPoint (pt_origin\<lparr>radius := Num 1\<rparr>) (VNum (Num 0)) (VNum (Num 0)))
       = Num 6371
   \<and> radius (rhumbMidpointTo (pt_origin\<lparr>radius := Num 1\<rparr>) (pt_east90\<lparr>radius := Num 2\<rparr>))
       = Num 6371"
proof -
  have "intersection (pt_origin\<lparr>radius := Num 1\<rparr>) (VNum (Num 0)) (pt_east90\<lparr>radius := Num 2\<rparr>)
      (VNum (Num 0))
     = intersection pt_origin (VNum (Num 0)) pt_east90 (VNum (Num 0))"
    by (simp add: intersection_def)
  then show ?thesis
    using intersection_north_pole
      result_radius_default [of "pt_origin\<lparr>radius := Num 1\<rparr>" "pt_east90\<lparr>radius := Num 2\<rparr>"
        "VNum (Num 0)" "VNum (Num 0)" "VNum (Num 0)"]
    by simp
qed

section \<open>Normalisation of the longitude\<close>

lemma lon_new_LatLon [simp]: "lon (new_LatLon a (VNum l) c) = l"
  by (simp add: new_LatLon_def Let_def)




















section \<open>Parsing degrees, minutes and seconds\<close>

lemma js_add_NaN_right [simp]: "x + NaN = NaN"
  by (cases x) (simp_all add: plus_jsnum_def)

lemma js_add_NaN_left [simp]: "NaN + x = NaN"
  by (simp add: plus_jsnum_def)

lemma js_div_NaN_left [simp]: "NaN / x = NaN"
  by (simp add: divide_jsnum_def)

lemma js_uminus_NaN [simp]: "- NaN = NaN"
  by (simp add: uminus_jsnum_def)

lemma typeof_neq [simp]:
  "ascii ''undefined'' \<noteq> ascii ''object''" "ascii ''string'' \<noteq> ascii ''number''"
  "ascii ''string'' \<noteq> ascii ''object''" "ascii ''number'' \<noteq> ascii ''object''"
  "ascii ''number'' \<noteq> ascii ''undefined''" "ascii ''string'' \<noteq> ascii ''undefined''"
  "ascii ''boolean'' \<noteq> ascii ''object''" "ascii ''object'' \<noteq> ascii ''undefined''"
  "ascii ''boolean'' \<noteq> ascii ''undefined''" "ascii ''boolean'' \<noteq> ascii ''number''"
  "ascii ''object'' \<noteq> ascii ''number''" "ascii ''undefined'' \<noteq> ascii ''number''"
  by (simp_all add: ascii_def)


lemmas string_eval = ascii_def trim_def is_space_def strip_minus_def strip_compass_def
  is_field_char_def is_digit_def parseDMS_dms_def Let_def




lemmas number_eval = StringToNumber_def radix_literal_def decimal_literal_def exponent_part_def
  digits_val_def pow10_def radix_digit_def



text \<open>
  The two strings of the sample usage in the header of the library:
  \<^verbatim>\<open>51 28 40.12 N\<close> and \<^verbatim>\<open>000 00 05.31 W\<close>, written with the degree sign, the prime and the
  double prime.
\<close>

lemma parseDMS_sample_north:
  "parseDMS (VStr [53, 49, 176, 32, 50, 56, 8242, 32, 52, 48, 46, 49, 50, 8243, 32, 78])
   = Inr (Num (51 + 28 / 60 + 40.12 / 3600))"
  by (simp add: parseDMS_def string_eval number_eval minus_west_south_def)

lemma parseDMS_sample_west:
  "parseDMS (VStr [48, 48, 48, 176, 32, 48, 48, 8242, 32, 48, 53, 46, 51, 49, 8243, 32, 87])
   = Inr (Num (- (5.31 / 3600)))"
  by (simp add: parseDMS_def string_eval number_eval minus_west_south_def)

section \<open>Fixed-point rendering of significant digits\<close>

text \<open>
  The decimal digits of a number are characters \<^verbatim>\<open>0\<close> to \<^verbatim>\<open>9\<close>, and there is at least
  one.
\<close>

lemma digits_step:
  "n < 10 \<Longrightarrow> digits n = [48 + n]"
  "10 \<le> n \<Longrightarrow> digits n = digits (n div 10) @ [48 + n mod 10]"
  by (simp_all add: digits.simps [of n])




















text \<open>
  The two numbers \<open>1.23e21\<close> and \<open>4.56e-10\<close>, which \<^verbatim>\<open>toPrecision\<close> writes with an
  exponent, come back padded with zeros.
\<close>

lemma exp10_step:
  "10 \<le> x \<Longrightarrow> exp10 x = exp10 (x / 10) + 1"
  "0 < x \<Longrightarrow> x < 1 \<Longrightarrow> exp10 x = exp10 (x * 10) - 1"
  "1 \<le> x \<Longrightarrow> x < 10 \<Longrightarrow> exp10 x = 0"
  by (simp_all add: exp10.simps [of x])

lemma append_zeros_step:
  "l < ex \<Longrightarrow> append_zeros ex l sig = append_zeros (ex - 1) l (sig @ [48])"
  "\<not> l < ex \<Longrightarrow> append_zeros ex l sig = sig"
  by (simp_all add: append_zeros.simps [of ex l sig] ascii_def)

lemma prepend_zeros_step:
  "1 < ex \<Longrightarrow> prepend_zeros ex sig = prepend_zeros (ex - 1) (48 # sig)"
  "\<not> 1 < ex \<Longrightarrow> prepend_zeros ex sig = sig"
  by (simp_all add: prepend_zeros.simps [of ex sig] ascii_def)

lemma exp10_large: "exp10 1230000000000000000000 = 21"
  by (simp add: exp10_step)

lemma exp10_small: "exp10 (456 / 1000000000000) = - 10"
  by (simp add: exp10_step)

lemma toPrecision_large:
  "toPrecision (Num 1230000000000000000000) (VNum (Num 3)) = Inr (ascii ''1.23e+21'')"
  by (simp add: toPrecision_def precision_digits_def render_digits_def exp10_large pow10_def
      trunc_def digits_step ascii_def Let_def)

lemma toPrecision_small:
  "toPrecision (Num (456 / 1000000000000)) (VNum (Num 3)) = Inr (ascii ''4.56e-10'')"
  using exp10_small
  by (simp add: toPrecision_def precision_digits_def render_digits_def pow10_def
      trunc_def digits_step ascii_def Let_def)


lemma toPrecisionFixed_large:
  "toPrecisionFixed (Num 1230000000000000000000) (VNum (Num 3))
     = Some (Inr (ascii ''1230000000000000000000''))"
  by (simp add: toPrecisionFixed_def toPrecision_large replace_positive_def replace_negative_def
      ascii_def number_eval is_digit_def is_space_def trim_def append_zeros_step Let_def)

lemma toPrecisionFixed_small:
  "toPrecisionFixed (Num (456 / 1000000000000)) (VNum (Num 3))
     = Some (Inr (ascii ''0.000000000456''))"
  using toPrecision_small
  by (simp add: toPrecisionFixed_def replace_positive_def replace_negative_def
      ascii_def number_eval is_digit_def is_space_def trim_def prepend_zeros_step Let_def)




































section \<open>Formatting a bearing\<close>

text \<open>
  Replacing the first occurrence of a pattern leaves a string without the pattern as
  it is, and rewrites the start of a string that begins with the pattern.
\<close>

lemma replace_first_absent: "\<not> has_substring pat s \<Longrightarrow> replace_first pat rep s = s"
  by (induction s) auto

lemma replace_first_prefix: "pat \<noteq> [] \<Longrightarrow> replace_first pat rep (pat @ rest) = rep @ rest"
  by (cases pat) simp_all

lemma toBrng_normalise_range:
  assumes "ToNumber deg = Num x" "- 360 \<le> x"
  shows "toBrng_normalise deg = Num (x + 360 - 360 * of_int \<lfloor>(x + 360) / 360\<rfloor>)"
    and "0 \<le> x + 360 - 360 * of_int \<lfloor>(x + 360) / 360\<rfloor>"
    and "x + 360 - 360 * of_int \<lfloor>(x + 360) / 360\<rfloor> < 360"
proof -
  show "toBrng_normalise deg = Num (x + 360 - 360 * of_int \<lfloor>(x + 360) / 360\<rfloor>)"
    using assms js_rem_nonneg [of "x + 360" 360] by (simp add: toBrng_normalise_def)
  show "0 \<le> x + 360 - 360 * of_int \<lfloor>(x + 360) / 360\<rfloor>"
    using floor_rem_bounds(1) [of 360 "x + 360"] by simp
  show "x + 360 - 360 * of_int \<lfloor>(x + 360) / 360\<rfloor> < 360"
    using floor_rem_bounds(2) [of 360 "x + 360"] by simp
qed

text \<open>
  Claim C7, as amended. For a degrees input that converts to a finite number not below
  \<open>-360\<close>, \<^verbatim>\<open>Geo.toBrng\<close> renders a value in \<open>[0, 360)\<close> that differs from the
  input by a multiple of \<open>360\<close>. A rendering in which \<^verbatim>\<open>360\<close> does not occur is returned
  as it is, and a rendering that begins with \<^verbatim>\<open>360\<close> is returned with \<^verbatim>\<open>0\<close> in its place.
\<close>

theorem toBrng_normalises:
  "(ToNumber deg = Num x \<and> - 360 \<le> x \<longrightarrow>
      (\<exists>y k. toBrng_normalise deg = Num y \<and> 0 \<le> y \<and> y < 360 \<and> y = x + 360 * of_int k))
   \<and> (toDMS g (VNum (toBrng_normalise deg)) format dp = Inr (Some b)
        \<and> \<not> has_substring (ascii ''360'') b \<longrightarrow> toBrng g deg format dp = Inr b)
   \<and> (toDMS g (VNum (toBrng_normalise deg)) format dp = Inr (Some (ascii ''360'' @ rest))
        \<longrightarrow> toBrng g deg format dp = Inr (ascii ''0'' @ rest))"
proof (intro conjI impI)
  assume a: "ToNumber deg = Num x \<and> - 360 \<le> x"
  let ?k = "1 - \<lfloor>(x + 360) / 360\<rfloor>"
  let ?y = "x + 360 - 360 * of_int \<lfloor>(x + 360) / 360\<rfloor>"
  have "toBrng_normalise deg = Num ?y" "0 \<le> ?y" "?y < 360"
    using a toBrng_normalise_range [of deg x] by simp_all
  moreover have "?y = x + 360 * of_int ?k"
    by simp
  ultimately show "\<exists>y k. toBrng_normalise deg = Num y \<and> 0 \<le> y \<and> y < 360 \<and> y = x + 360 * of_int k"
    by (intro exI [of _ ?y] exI [of _ ?k] conjI)
next
  assume "toDMS g (VNum (toBrng_normalise deg)) format dp = Inr (Some b)
      \<and> \<not> has_substring (ascii ''360'') b"
  then show "toBrng g deg format dp = Inr b"
    by (simp add: toBrng_def replace_first_absent)
next
  assume "toDMS g (VNum (toBrng_normalise deg)) format dp = Inr (Some (ascii ''360'' @ rest))"
  moreover have "replace_first (ascii ''360'') (ascii ''0'') (ascii ''360'' @ rest) = ascii ''0'' @ rest"
    by (rule replace_first_prefix) (simp add: ascii_def)
  ultimately show "toBrng g deg format dp = Inr (ascii ''0'' @ rest)"
    by (simp add: toBrng_def)
qed

text \<open>Renderings used below.\<close>

lemma normalise_west: "toBrng_normalise (VNum (Num (- 90))) = Num 270"
  by (simp add: toBrng_normalise_def trunc_def)

lemma normalise_below: "toBrng_normalise (VNum (Num (- 370))) = Num (- 10)"
  by (simp add: toBrng_normalise_def trunc_def ceiling_eq_iff)

lemma normalise_near: "toBrng_normalise (VNum (Num (35999999 / 100000))) = Num (35999999 / 100000)"
  by (simp add: toBrng_normalise_def trunc_def)

lemmas toDMS_eval = toDMS_def isNaN_def toFixed_def fixed_digits_def pad_below_def nat_toString_def
  digits_step trunc_def number_eval string_eval degree_sign_def prime_sign_def double_prime_sign_def

lemma toDMS_270:
  "toDMS None (VNum (Num 270)) VUndefined VUndefined
     = Inr (Some (ascii ''270'' @ degree_sign @ ascii ''00'' @ prime_sign @ ascii ''00'' @ double_prime_sign))"
  by (simp add: toDMS_eval)


lemma toDMS_near:
  "toDMS None (VNum (Num (35999999 / 100000))) (VStr (ascii ''d'')) VUndefined
     = Inr (Some (ascii ''360'' @ ascii ''.0000'' @ degree_sign))"
  by (simp add: toDMS_eval)

lemma toDMS_10:
  "toDMS None (VNum (Num (- 10))) VUndefined VUndefined
     = Inr (Some (ascii ''010'' @ degree_sign @ ascii ''00'' @ prime_sign @ ascii ''00'' @ double_prime_sign))"
  by (simp add: toDMS_eval)

lemma toDMS_136:
  "toDMS None (VNum (Num (136 / 100))) (VStr (ascii ''d'')) VUndefined
     = Inr (Some (ascii ''001.3600'' @ degree_sign))"
  by (simp add: toDMS_eval)

lemma normalise_136: "toBrng_normalise (VNum (Num (136 / 100))) = Num (136 / 100)"
  by (simp add: toBrng_normalise_def trunc_def)

lemma no_360:
  "\<not> has_substring (ascii ''360'')
     (ascii ''270'' @ degree_sign @ ascii ''00'' @ prime_sign @ ascii ''00'' @ double_prime_sign)"
  by (simp add: ascii_def degree_sign_def prime_sign_def double_prime_sign_def)

text \<open>
  The claim as stated fails: \<open>-370\<close> is normalised to \<open>-10\<close>, outside \<open>[0, 360)\<close>,
  and rendered as \<open>010\<close> degrees; and the replacement alters the rendering
  \<^verbatim>\<open>001.3600\<close> of \<open>1.36\<close>, which is not a rendered value of \<open>360\<close>.
\<close>

theorem toBrng_counterexample:
  "toBrng_normalise (VNum (Num (- 370))) = Num (- 10)
   \<and> toBrng None (VNum (Num (- 370))) VUndefined VUndefined
       = Inr (ascii ''010'' @ degree_sign @ ascii ''00'' @ prime_sign @ ascii ''00'' @ double_prime_sign)
   \<and> toDMS None (VNum (toBrng_normalise (VNum (Num (136 / 100))))) (VStr (ascii ''d'')) VUndefined
       = Inr (Some (ascii ''001.3600'' @ degree_sign))
   \<and> toBrng None (VNum (Num (136 / 100))) (VStr (ascii ''d'')) VUndefined
       = Inr (ascii ''001.00'' @ degree_sign)"
  using toDMS_10 toDMS_136 normalise_below normalise_136
  by (simp add: toBrng_def ascii_def degree_sign_def prime_sign_def double_prime_sign_def)

text \<open>
  The theorem at \<open>-90\<close>, rendered as \<open>270\<close> degrees, and at \<open>359.99999\<close>, which four
  decimal places round up to \<^verbatim>\<open>360.0000\<close>.
\<close>

theorem toBrng_normalises_witness:
  "(\<exists>y k. toBrng_normalise (VNum (Num (- 90))) = Num y \<and> 0 \<le> y \<and> y < 360
        \<and> y = - 90 + 360 * of_int k)
   \<and> toBrng None (VNum (Num (- 90))) VUndefined VUndefined
       = Inr (ascii ''270'' @ degree_sign @ ascii ''00'' @ prime_sign @ ascii ''00'' @ double_prime_sign)
   \<and> toBrng None (VNum (Num (35999999 / 100000))) (VStr (ascii ''d'')) VUndefined
       = Inr (ascii ''0'' @ ascii ''.0000'' @ degree_sign)"
  using toBrng_normalises [where deg = "VNum (Num (- 90))" and x = "- 90" and g = None
      and format = VUndefined and dp = VUndefined
      and b = "ascii ''270'' @ degree_sign @ ascii ''00'' @ prime_sign @ ascii ''00'' @ double_prime_sign"
      and rest = "[]"]
    toBrng_normalises [where deg = "VNum (Num (35999999 / 100000))" and x = 0 and g = None
      and format = "VStr (ascii ''d'')" and dp = VUndefined and b = "[]"
      and rest = "ascii ''.0000'' @ degree_sign"]
    toDMS_270 toDMS_near no_360
  by (simp add: normalise_west normalise_near)

section \<open>The errors raised by formatting and parsing\<close>

text \<open>
  \<^verbatim>\<open>toFixed\<close> raises nothing but a \<^verbatim>\<open>RangeError\<close>, and only for a number of decimal
  places outside \<open>0..100\<close>; the default numbers of decimal places are inside. From
  there, the errors of \<^verbatim>\<open>Geo.toDMS\<close> on an argument that is not an object, and the
  results of \<^verbatim>\<open>Geo.parseDMS\<close> on the values of the model that are not objects.
\<close>

lemma toFixed_raises:
  assumes "toFixed x dp = Inl e"
  shows "e = RangeError"
    and "\<not> (\<exists>f. ToIntegerOrInfinity (ToNumber dp) = Num f \<and> 0 \<le> f \<and> f \<le> 100)"
  using assms by (auto simp: toFixed_def split: jsnum.splits if_splits)

lemma toFixed_returns:
  assumes "toFixed x dp = Inr s"
  shows "\<exists>s'. toFixed y dp = Inr s'"
  using assms by (auto simp: toFixed_def split: jsnum.splits if_splits)

lemma toFixed_default:
  "toFixed x (VNum (Num 0)) \<noteq> Inl e" "toFixed x (VNum (Num 2)) \<noteq> Inl e"
  "toFixed x (VNum (Num 4)) \<noteq> Inl e"
  by (simp_all add: toFixed_def trunc_def split: jsnum.splits)

lemma typeof_undefined: "typeof v = ascii ''undefined'' \<longleftrightarrow> v = VUndefined"
  by (cases v) (simp_all add: ascii_def)

lemma typeof_object: "typeof v = ascii ''object'' \<longleftrightarrow> v = VNull \<or> (\<exists>s. v = VObj s)"
  by (cases v) (simp_all add: ascii_def)

lemma format_neq:
  "ascii ''d'' \<noteq> ascii ''dm''" "ascii ''d'' \<noteq> ascii ''dms''"
  "ascii ''dm'' \<noteq> ascii ''dms''" "ascii ''dm'' \<noteq> ascii ''d''"
  "ascii ''dms'' \<noteq> ascii ''d''" "ascii ''dms'' \<noteq> ascii ''dm''"
  by (simp_all add: ascii_def)

lemma toDMS_errors:
  assumes "typeof deg \<noteq> ascii ''object''" "toDMS g deg format dp = Inl e"
  shows "(e = RangeError \<and> dp \<noteq> VUndefined
          \<and> \<not> (\<exists>f. ToIntegerOrInfinity (ToNumber dp) = Num f \<and> 0 \<le> f \<and> f \<le> 100))
       \<or> (e = ReferenceError \<and> dp \<noteq> VUndefined \<and> g = None
          \<and> format \<notin> {VUndefined, VStr (ascii ''d''), VStr (ascii ''dm''), VStr (ascii ''dms'')})"
proof (cases "dp = VUndefined")
  case True
  then show ?thesis
    using assms
    by (auto simp: toDMS_def Let_def typeof_undefined format_neq toFixed_default
        split: if_splits sum.splits option.splits)
next
  case False
  then show ?thesis
    using assms
    by (auto simp: toDMS_def Let_def typeof_undefined format_neq
        split: if_splits sum.splits option.splits dest: toFixed_raises)
qed


lemma parseDMS_dms_constants:
  "Array_toString (parseDMS_dms VUndefined) = []"
  "Array_toString (parseDMS_dms (VBool b)) = []"
  "Array_toString (parseDMS_dms (VNum NaN)) = []"
  "Array_toString (parseDMS_dms (VNum PInf)) = []"
  "Array_toString (parseDMS_dms (VNum NInf)) = []"
  by (simp_all add: string_eval)

lemma parseDMS_VStr: "\<exists>r. parseDMS (VStr s) = Inr r"
proof -
  define dms where "dms = parseDMS_dms (VStr s)"
  consider "dms = []" | d where "dms = [d]" | d m where "dms = [d, m]"
    | d m s' where "dms = [d, m, s']" | d m s' x xs where "dms = d # m # s' # x # xs"
    by (metis list.exhaust)
  then show ?thesis
    unfolding dms_def [symmetric]
    by cases (auto simp: parseDMS_def Let_def dms_def [symmetric])
qed

lemma parseDMS_not_object:
  assumes "typeof v \<noteq> ascii ''object''"
  shows "\<exists>r. parseDMS v = Inr r"
proof (cases v)
  case (VNum n)
  then show ?thesis
    by (cases n) (simp_all add: parseDMS_def parseDMS_dms_constants ascii_def)
next
  case (VStr s)
  then show ?thesis
    using parseDMS_VStr by simp
qed (use assms in \<open>simp_all add: parseDMS_def parseDMS_dms_constants ascii_def\<close>)

lemma typeof_primitive:
  assumes "typeof v \<in> {ascii ''undefined'', ascii ''boolean'', ascii ''number'', ascii ''string''}"
  shows "typeof v \<noteq> ascii ''object''"
  using assms by auto

text \<open>
  Claim C1, as amended. \<^verbatim>\<open>Geo.toDMS\<close> raises a \<^verbatim>\<open>TypeError\<close> when its degrees argument is
  an object. On a degrees argument that is \<^verbatim>\<open>undefined\<close>, a boolean, a number or a
  string it does not raise when the number of decimal places is left out, and with a
  number of decimal places that is a number and one of the formats \<^verbatim>\<open>d\<close>, \<^verbatim>\<open>dm\<close>,
  \<^verbatim>\<open>dms\<close> (or none) it raises only a \<^verbatim>\<open>RangeError\<close>, for a number of decimal places
  outside \<open>0..100\<close>. \<^verbatim>\<open>Geo.parseDMS\<close> does not raise on \<^verbatim>\<open>undefined\<close>, a boolean, a
  number or a string.
\<close>

theorem raise_conditions:
  "(typeof deg = ascii ''object'' \<longrightarrow> toDMS g deg format dp = Inl TypeError)
   \<and> (typeof deg \<in> {ascii ''undefined'', ascii ''boolean'', ascii ''number'', ascii ''string''}
        \<and> dp = VUndefined
      \<longrightarrow> (\<exists>r. toDMS g deg format dp = Inr r))
   \<and> (typeof deg \<in> {ascii ''undefined'', ascii ''boolean'', ascii ''number'', ascii ''string''}
        \<and> typeof dp = ascii ''number''
        \<and> format \<in> {VUndefined, VStr (ascii ''d''), VStr (ascii ''dm''), VStr (ascii ''dms'')}
        \<and> toDMS g deg format dp = Inl e
      \<longrightarrow> e = RangeError
          \<and> \<not> (\<exists>f. ToIntegerOrInfinity (ToNumber dp) = Num f \<and> 0 \<le> f \<and> f \<le> 100))
   \<and> (typeof v \<in> {ascii ''undefined'', ascii ''boolean'', ascii ''number'', ascii ''string''}
      \<longrightarrow> (\<exists>r. parseDMS v = Inr r))"
proof (intro conjI impI)
  assume "typeof deg = ascii ''object''"
  then show "toDMS g deg format dp = Inl TypeError"
    by (simp add: toDMS_def)
next
  assume a: "typeof deg \<in> {ascii ''undefined'', ascii ''boolean'', ascii ''number'', ascii ''string''}
      \<and> dp = VUndefined"
  then have n: "typeof deg \<noteq> ascii ''object''"
    using typeof_primitive [of deg] by simp
  show "\<exists>r. toDMS g deg format dp = Inr r"
  proof (cases "toDMS g deg format dp")
    case (Inl e)
    then show ?thesis
      using a toDMS_errors [OF n, of g format dp e] by simp
  next
    case (Inr r)
    then show ?thesis
      by simp
  qed
next
  assume a: "typeof deg \<in> {ascii ''undefined'', ascii ''boolean'', ascii ''number'', ascii ''string''}
      \<and> typeof dp = ascii ''number''
      \<and> format \<in> {VUndefined, VStr (ascii ''d''), VStr (ascii ''dm''), VStr (ascii ''dms'')}
      \<and> toDMS g deg format dp = Inl e"
  then have n: "typeof deg \<noteq> ascii ''object''"
    using typeof_primitive [of deg] by simp
  have f: "format \<in> {VUndefined, VStr (ascii ''d''), VStr (ascii ''dm''), VStr (ascii ''dms'')}"
    and r: "toDMS g deg format dp = Inl e"
    using a by simp_all
  show "e = RangeError"
    using f toDMS_errors [OF n r] by auto
  show "\<not> (\<exists>f. ToIntegerOrInfinity (ToNumber dp) = Num f \<and> 0 \<le> f \<and> f \<le> 100)"
    using f toDMS_errors [OF n r] by auto
next
  assume "typeof v \<in> {ascii ''undefined'', ascii ''boolean'', ascii ''number'', ascii ''string''}"
  then have "typeof v \<noteq> ascii ''object''"
    by (rule typeof_primitive)
  then show "\<exists>r. parseDMS v = Inr r"
    by (rule parseDMS_not_object)
qed

text \<open>
  The claim as stated fails: \<^verbatim>\<open>Geo.parseDMS\<close> returns \<^verbatim>\<open>NaN\<close> on an ordinary object, and
  \<^verbatim>\<open>Geo.toDMS\<close> raises a \<^verbatim>\<open>RangeError\<close> on a number when asked for \<open>-1\<close> decimal places.
\<close>

lemma parseDMS_object: "parseDMS (VObj (ascii ''[object Object]'')) = Inr NaN"
  by (simp add: parseDMS_def string_eval)

lemma toDMS_negative_dp:
  "toDMS None (VNum (Num 0)) (VStr (ascii ''d'')) (VNum (Num (- 1))) = Inl RangeError"
  by (simp add: toDMS_def toFixed_def isNaN_def trunc_def ascii_def Let_def)

theorem raise_counterexample:
  "parseDMS (VObj (ascii ''[object Object]'')) = Inr NaN
   \<and> toDMS None (VNum (Num 0)) (VStr (ascii ''d'')) (VNum (Num (- 1))) = Inl RangeError"
  using parseDMS_object toDMS_negative_dp by simp

text \<open>
  The theorem at an ordinary object, at the number \<open>0\<close> with and without decimal
  places, and at a string.
\<close>

theorem raise_conditions_witness:
  "toDMS None (VObj (ascii ''[object Object]'')) VUndefined VUndefined = Inl TypeError
   \<and> (\<exists>r. toDMS None (VNum (Num 0)) (VStr (ascii ''d'')) VUndefined = Inr r)
   \<and> \<not> (\<exists>f. ToIntegerOrInfinity (ToNumber (VNum (Num (- 1)))) = Num f \<and> 0 \<le> f \<and> f \<le> 100)
   \<and> (\<exists>r. parseDMS (VStr (ascii ''51 28 40N'')) = Inr r)"
  using raise_conditions [where deg = "VObj (ascii ''[object Object]'')" and g = None
      and format = VUndefined and dp = VUndefined and e = TypeError
      and v = "VStr (ascii ''51 28 40N'')"]
    raise_conditions [where deg = "VNum (Num 0)" and g = None and format = "VStr (ascii ''d'')"
      and dp = VUndefined and e = TypeError and v = VUndefined]
    raise_conditions [where deg = "VNum (Num 0)" and g = None and format = "VStr (ascii ''d'')"
      and dp = "VNum (Num (- 1))" and e = RangeError and v = VUndefined]
    toDMS_negative_dp
  by simp

text \<open>
  On an object whose conversion to a string splits into one to three fields, such as
  an array of two numbers, \<^verbatim>\<open>Geo.parseDMS\<close> does raise a \<^verbatim>\<open>TypeError\<close>: the one of the
  call \<^verbatim>\<open>dmsStr.trim()\<close> in its last statement.
\<close>

theorem parseDMS_array: "parseDMS (VObj (ascii ''51,28'')) = Inl TypeError"
  by (simp add: parseDMS_def string_eval)

text \<open>
  Called with a number of decimal places and a format that is none of \<^verbatim>\<open>d\<close>, \<^verbatim>\<open>dm\<close>,
  \<^verbatim>\<open>dms\<close>, before any other call has assigned the global variable \<^verbatim>\<open>dms\<close>,
  \<^verbatim>\<open>Geo.toDMS\<close> raises a \<^verbatim>\<open>ReferenceError\<close>.
\<close>

theorem toDMS_unknown_format:
  "toDMS None (VNum (Num 0)) (VStr (ascii ''deg'')) (VNum (Num 2)) = Inl ReferenceError"
  by (simp add: toDMS_def isNaN_def ascii_def Let_def)

end
